theory Spec2Isabelle
  imports Main "HOL-Library.Word"
begin

section \<open>Shared data: errors, JSON, requests and responses\<close>

text \<open>
  The Go sources are \<^verbatim>\<open>consumer.go\<close>, \<^verbatim>\<open>worker.go\<close> and the capability and pipe
  transport code of \<^verbatim>\<open>mediasoup/rtp_capabilities.go\<close>. Every method becomes a function
  on a record of the receiver's fields. Logging (\<^verbatim>\<open>logger.Debug\<close>, \<^verbatim>\<open>logger.Error\<close>)
  has no effect on the state and is left out; the mutex of a Consumer is held for a whole
  call, so each call is one atomic step.

  Modelled from the spec: the event emitter (\<^verbatim>\<open>IEventEmitter\<close>, \<^verbatim>\<open>Emit\<close>,
  \<^verbatim>\<open>SafeEmit\<close>, \<^verbatim>\<open>On\<close>) is not among the sources. An event given to an emitter is
  appended to a log of the emitter, in emission order, and \<^verbatim>\<open>On\<close> adds the event name to
  the names that have a handler; what a handler of another object does with an event is a
  step of that object, not part of the emitting call.

  A record that has a channel field holds the state of the channel as the calls of that
  object see it. The channel of a worker is shared by all its objects; the effect of one
  object's calls on the channel seen by another is not followed.
\<close>

type_synonym bytes = "8 word list"

text \<open>Modelled from the spec: the error constructors (\<^verbatim>\<open>NewTypeError\<close>,
  \<^verbatim>\<open>NewInvalidStateError\<close> and the others) are not among the sources; these are the kinds
  of error the spec lists. \<open>GoError\<close> is a plain error made by \<^verbatim>\<open>fmt.Errorf\<close> or the
  worker's generic \<^verbatim>\<open>Error\<close>.\<close>

datatype error =
    TypeError string
  | InvalidStateError string
  | UnsupportedError string
  | TimeoutError string
  | GoError string

fun isInvalidStateError :: "error option \<Rightarrow> bool" where
  "isInvalidStateError (Some (InvalidStateError m)) = True"
| "isInvalidStateError e = False"

text \<open>Values of type \<^verbatim>\<open>interface{}\<close> and \<^verbatim>\<open>H\<close> (a string-keyed map, declared
  outside the sources); \<open>JNull\<close> is nil.\<close>

datatype json =
    JNull
  | JBool bool
  | JNumber int
  | JString string
  | JArray "json list"
  | JObject "(string \<times> json) list"

text \<open>Modelled from the spec: the type \<^verbatim>\<open>internalData\<close> is not among the sources; it
  is the scope tuple sent with every request, with the six ids the spec names.\<close>

record internalData =
  RouterId :: string
  TransportId :: string
  ProducerId :: string
  ConsumerId :: string
  DataProducerId :: string
  DataConsumerId :: string

record ConsumerScore =
  Score :: "32 word"
  ProducerScore :: "32 word"
  ProducerScores :: "32 word list option"

record ConsumerLayers =
  SpatialLayer :: "8 word"
  TemporalLayer :: "8 word"

record ConsumerTraceEventData =
  Type :: string
  Timestamp :: "64 word"
  Direction :: string
  Info :: json

text \<open>Modelled from the spec: the types \<^verbatim>\<open>RtpParameters\<close>, \<^verbatim>\<open>TransportTuple\<close> and
  \<^verbatim>\<open>TransportConnectOptions\<close> are not among the sources. RTP parameters are carried,
  never inspected, by the code modelled here; only the encodings field is read (by
  \<^verbatim>\<open>PipeTransport.Consume\<close>). Of the connect options the code reads \<^verbatim>\<open>Ip\<close>,
  \<^verbatim>\<open>Port\<close> and \<^verbatim>\<open>SrtpParameters\<close>.\<close>

record RtpEncoding =
  Ssrc :: "32 word"
  Rid :: string

record RtpParameters =
  Mid :: string
  Encodings :: "RtpEncoding list"

record WorkerUpdateableSettings =
  u_LogLevel :: string
  u_LogTags :: "string list"

record TransportTuple =
  LocalIp :: string
  LocalPort :: int
  RemoteIp :: string
  RemotePort :: int

record TransportConnectOptions =
  Ip :: string
  Port :: int
  SrtpParameters :: json

text \<open>The body of a request, one constructor per shape the callers build.\<close>

datatype reqdata =
    NoData
  | NilData
  | LayersData ConsumerLayers
  | PriorityData "32 word"
  | TypesData "string list"
  | SettingsData WorkerUpdateableSettings
  | ConnectData TransportConnectOptions
  | ConsumeData string RtpParameters string "RtpEncoding list"

record request =
  rq_method :: string
  rq_internal :: "internalData option"
  rq_body :: reqdata

text \<open>Modelled from the spec: the type \<^verbatim>\<open>workerResponse\<close> is not among the sources. A
  response is a result or an error: it has the raw data and the error, read by
  \<^verbatim>\<open>Data()\<close> and \<^verbatim>\<open>Err()\<close>.\<close>

record workerResponse =
  Data :: bytes
  Err :: "error option"

text \<open>
  Modelled from the spec: the control channel (\<^verbatim>\<open>Channel\<close>) is not among the sources.
  It has a closed flag, the requests written to the worker, and the target ids that have
  a listener. A request on a closed channel fails with \<open>InvalidStateError\<close> and writes
  nothing; on an open channel the request is written and the call returns the reply of
  the worker (\<open>reply\<close>: an accepted response, a worker error or a timeout), which the
  model takes as an input.
\<close>

record Channel =
  ch_closed :: bool
  ch_sent :: "request list"
  ch_listeners :: "string list"

definition Request :: "string \<Rightarrow> internalData option \<Rightarrow> reqdata \<Rightarrow> workerResponse \<Rightarrow> Channel
    \<Rightarrow> workerResponse \<times> Channel" where
  "Request m i d reply ch =
     (if ch_closed ch
      then (\<lparr>Data = [], Err = Some (InvalidStateError ''channel closed'')\<rparr>, ch)
      else (reply, ch\<lparr>ch_sent := ch_sent ch @ [\<lparr>rq_method = m, rq_internal = i, rq_body = d\<rparr>]\<rparr>))"

definition Channel_On :: "string \<Rightarrow> Channel \<Rightarrow> Channel" where
  "Channel_On target ch = ch\<lparr>ch_listeners := ch_listeners ch @ [target]\<rparr>"

definition Channel_RemoveAllListeners :: "string \<Rightarrow> Channel \<Rightarrow> Channel" where
  "Channel_RemoveAllListeners target ch =
     ch\<lparr>ch_listeners := filter (\<lambda>t. t \<noteq> target) (ch_listeners ch)\<rparr>"

definition Channel_Close :: "Channel \<Rightarrow> Channel" where
  "Channel_Close ch = ch\<lparr>ch_closed := True\<rparr>"

text \<open>Modelled from the spec: the payload channel (\<^verbatim>\<open>PayloadChannel\<close>), not among the
  sources; the code modelled here only registers and removes listeners on it and closes it.\<close>

record PayloadChannel =
  pch_closed :: bool
  pch_listeners :: "string list"

definition PayloadChannel_On :: "string \<Rightarrow> PayloadChannel \<Rightarrow> PayloadChannel" where
  "PayloadChannel_On target ch = ch\<lparr>pch_listeners := pch_listeners ch @ [target]\<rparr>"

definition PayloadChannel_RemoveAllListeners :: "string \<Rightarrow> PayloadChannel \<Rightarrow> PayloadChannel" where
  "PayloadChannel_RemoveAllListeners target ch =
     ch\<lparr>pch_listeners := filter (\<lambda>t. t \<noteq> target) (pch_listeners ch)\<rparr>"

definition PayloadChannel_Close :: "PayloadChannel \<Rightarrow> PayloadChannel" where
  "PayloadChannel_Close ch = ch\<lparr>pch_closed := True\<rparr>"

text \<open>
  Modelled from the spec: the method \<^verbatim>\<open>workerResponse.Unmarshal\<close> is not among the
  sources. \<^verbatim>\<open>response.Unmarshal(&v)\<close> returns the error of the response when it has one
  and leaves \<open>v\<close> alone; otherwise it decodes the data into \<open>v\<close>. The decoding step
  (\<^verbatim>\<open>encoding/json\<close>) is an input of the model: \<open>dec data v\<close> is \<open>v\<close> after decoding,
  with the error of the decoder.
\<close>

definition Unmarshal :: "(bytes \<Rightarrow> 'a \<Rightarrow> 'a \<times> error option) \<Rightarrow> workerResponse \<Rightarrow> 'a
    \<Rightarrow> 'a \<times> error option" where
  "Unmarshal dec r v = (case Err r of Some e \<Rightarrow> (v, Some e) | None \<Rightarrow> dec (Data r) v)"

section \<open>Consumer (consumer.go)\<close>

text \<open>Modelled from the spec: \<^verbatim>\<open>ProducerStat\<close> (of which \<^verbatim>\<open>ConsumerStat\<close> is an
  alias), \<^verbatim>\<open>DumpResult\<close> and \<^verbatim>\<open>NewDumpResult\<close> are not among the sources. A stat is a
  JSON value; a dump result holds the data and the error it was made from.\<close>

type_synonym ConsumerStat = json

record DumpResult =
  dump_Data :: bytes
  dump_Err :: "error option"

definition NewDumpResult :: "bytes \<Rightarrow> error option \<Rightarrow> DumpResult" where
  "NewDumpResult d e = \<lparr>dump_Data = d, dump_Err = e\<rparr>"

record consumerData =
  cd_Kind :: string
  cd_Type :: string
  cd_RtpParameters :: RtpParameters

datatype consumer_arg =
    ScoreArg ConsumerScore
  | LayersArg ConsumerLayers
  | TraceArg ConsumerTraceEventData
  | PacketArg bytes

type_synonym consumer_event = "string \<times> consumer_arg list"

record consumerParams =
  p_internal :: internalData
  p_data :: consumerData
  p_channel :: Channel
  p_payloadChannel :: PayloadChannel
  p_appData :: json
  p_paused :: bool
  p_producerPaused :: bool
  p_score :: ConsumerScore
  p_preferredLayers :: ConsumerLayers

text \<open>The fields of \<^verbatim>\<open>Consumer\<close>. \<open>emitted\<close> is the log of the embedded emitter,
  \<open>observer\<close> the log of the observer, \<open>handlers\<close> the events of the consumer that
  have a handler (\<^verbatim>\<open>consumer.On\<close>).\<close>

record Consumer =
  emitted :: "consumer_event list"
  handlers :: "string list"
  c_internal :: internalData
  c_data :: consumerData
  c_channel :: Channel
  c_payloadChannel :: PayloadChannel
  c_appData :: json
  paused :: bool
  closed :: "32 word"
  producerPaused :: bool
  priority :: "32 word"
  score :: ConsumerScore
  preferredLayers :: ConsumerLayers
  currentLayers :: ConsumerLayers
  observer :: "consumer_event list"

text \<open>The decoders of \<^verbatim>\<open>encoding/json\<close> at the types the code decodes into.\<close>

record json_decoders =
  dec_score :: "bytes \<Rightarrow> ConsumerScore \<Rightarrow> ConsumerScore \<times> error option"
  dec_layers :: "bytes \<Rightarrow> ConsumerLayers \<Rightarrow> ConsumerLayers \<times> error option"
  dec_trace :: "bytes \<Rightarrow> ConsumerTraceEventData \<Rightarrow> ConsumerTraceEventData \<times> error option"
  dec_priority :: "bytes \<Rightarrow> 32 word \<Rightarrow> 32 word \<times> error option"
  dec_stats :: "bytes \<Rightarrow> ConsumerStat list option \<Rightarrow> ConsumerStat list option \<times> error option"

definition zero_ConsumerScore :: ConsumerScore where
  "zero_ConsumerScore = \<lparr>Score = 0, ProducerScore = 0, ProducerScores = None\<rparr>"

definition zero_ConsumerLayers :: ConsumerLayers where
  "zero_ConsumerLayers = \<lparr>SpatialLayer = 0, TemporalLayer = 0\<rparr>"

definition zero_ConsumerTraceEventData :: ConsumerTraceEventData where
  "zero_ConsumerTraceEventData = \<lparr>Type = [], Timestamp = 0, Direction = [], Info = JNull\<rparr>"

text \<open>\<^verbatim>\<open>reflect.DeepEqual\<close> on two scores: the numbers are equal and the slices are both
  nil or both non-nil with the same elements (a nil slice and an empty one differ).\<close>

definition DeepEqual_score :: "ConsumerScore \<Rightarrow> ConsumerScore \<Rightarrow> bool" where
  "DeepEqual_score a b \<longleftrightarrow>
     Score a = Score b \<and> ProducerScore a = ProducerScore b \<and> ProducerScores a = ProducerScores b"

text \<open>\<^verbatim>\<open>atomic.CompareAndSwapUint32(&x, 0, 1)\<close>: whether it swapped, and the new value.\<close>

definition CompareAndSwap01 :: "32 word \<Rightarrow> bool \<times> 32 word" where
  "CompareAndSwap01 x = (if x = 0 then (True, 1) else (False, x))"

definition handleWorkerNotifications_register :: "Consumer \<Rightarrow> Consumer" where
  "handleWorkerNotifications_register c =
     c\<lparr>c_channel := Channel_On (ConsumerId (c_internal c)) (c_channel c),
       c_payloadChannel := PayloadChannel_On (ConsumerId (c_internal c)) (c_payloadChannel c)\<rparr>"

definition newConsumer :: "consumerParams \<Rightarrow> Consumer" where
  "newConsumer params =
     (let params1 = (if p_appData params = JNull then params\<lparr>p_appData := JObject []\<rparr> else params);
          params2 = (if DeepEqual_score (p_score params1) zero_ConsumerScore
                     then params1\<lparr>p_score :=
                            \<lparr>Score = 10, ProducerScore = 10, ProducerScores = Some []\<rparr>\<rparr>
                     else params1)
      in handleWorkerNotifications_register
           \<lparr>emitted = [], handlers = [],
            c_internal = p_internal params2,
            c_data = p_data params2,
            c_channel = p_channel params2,
            c_payloadChannel = p_payloadChannel params2,
            c_appData = p_appData params2,
            paused = p_paused params2,
            closed = 0,
            producerPaused = p_producerPaused params2,
            priority = 0,
            score = p_score params2,
            preferredLayers = p_preferredLayers params2,
            currentLayers = zero_ConsumerLayers,
            observer = []\<rparr>)"

definition Closed :: "Consumer \<Rightarrow> bool" where
  "Closed c \<longleftrightarrow> closed c > 0"

definition Consumer_Score :: "Consumer \<Rightarrow> ConsumerScore" where
  "Consumer_Score c = score c"

text \<open>Modelled from the spec: \<^verbatim>\<open>Emit\<close> and \<^verbatim>\<open>SafeEmit\<close> of the event emitter, which
  is not among the sources: the event and its arguments are appended to the log of the
  consumer's own emitter (\<open>Emit\<close>; the code's \<^verbatim>\<open>consumer.Emit\<close> and
  \<^verbatim>\<open>consumer.SafeEmit\<close>) or of its observer (\<open>observer_SafeEmit\<close>).\<close>

definition Emit :: "string \<Rightarrow> consumer_arg list \<Rightarrow> Consumer \<Rightarrow> Consumer" where
  "Emit ev args c = c\<lparr>emitted := emitted c @ [(ev, args)]\<rparr>"

definition observer_SafeEmit :: "string \<Rightarrow> consumer_arg list \<Rightarrow> Consumer \<Rightarrow> Consumer" where
  "observer_SafeEmit ev args c = c\<lparr>observer := observer c @ [(ev, args)]\<rparr>"

definition Close :: "workerResponse \<Rightarrow> Consumer \<Rightarrow> error option \<times> Consumer" where
  "Close reply c =
     (case CompareAndSwap01 (closed c) of
        (True, v) \<Rightarrow>
          (let c1 = c\<lparr>closed := v\<rparr>;
               c2 = c1\<lparr>c_channel :=
                        Channel_RemoveAllListeners (ConsumerId (c_internal c1)) (c_channel c1)\<rparr>;
               c3 = c2\<lparr>c_payloadChannel :=
                        PayloadChannel_RemoveAllListeners (ConsumerId (c_internal c2))
                          (c_payloadChannel c2)\<rparr>;
               c4 = c3\<lparr>c_channel :=
                        snd (Request ''consumer.close'' (Some (c_internal c3)) NoData reply
                               (c_channel c3))\<rparr>;
               c5 = Emit ''@close'' [] c4
           in (None, observer_SafeEmit ''close'' [] c5))
      | (False, v) \<Rightarrow> (None, c))"

definition transportClosed :: "Consumer \<Rightarrow> Consumer" where
  "transportClosed c =
     (case CompareAndSwap01 (closed c) of
        (True, v) \<Rightarrow>
          (let c1 = c\<lparr>closed := v\<rparr>;
               c2 = c1\<lparr>c_channel :=
                        Channel_RemoveAllListeners (ConsumerId (c_internal c1)) (c_channel c1)\<rparr>;
               c3 = c2\<lparr>c_payloadChannel :=
                        PayloadChannel_RemoveAllListeners (ConsumerId (c_internal c2))
                          (c_payloadChannel c2)\<rparr>;
               c4 = Emit ''transportclose'' [] c3
           in observer_SafeEmit ''close'' [] c4)
      | (False, v) \<Rightarrow> c)"

definition Dump :: "workerResponse \<Rightarrow> Consumer \<Rightarrow> DumpResult \<times> Consumer" where
  "Dump reply c =
     (let (resp, ch) = Request ''consumer.dump'' (Some (c_internal c)) NoData reply (c_channel c)
      in (NewDumpResult (Data resp) (Err resp), c\<lparr>c_channel := ch\<rparr>))"

definition GetStats :: "json_decoders \<Rightarrow> workerResponse \<Rightarrow> Consumer
    \<Rightarrow> (ConsumerStat list option \<times> error option) \<times> Consumer" where
  "GetStats J reply c =
     (let (resp, ch) = Request ''consumer.getStats'' (Some (c_internal c)) NoData reply
                         (c_channel c)
      in (Unmarshal (dec_stats J) resp None, c\<lparr>c_channel := ch\<rparr>))"

definition Pause :: "workerResponse \<Rightarrow> Consumer \<Rightarrow> error option \<times> Consumer" where
  "Pause reply c =
     (let wasPaused = (paused c \<or> producerPaused c);
          (response, ch) = Request ''consumer.pause'' (Some (c_internal c)) NoData reply
                             (c_channel c);
          c1 = c\<lparr>c_channel := ch\<rparr>
      in case Err response of
           Some e \<Rightarrow> (Some e, c1)
         | None \<Rightarrow>
             (let c2 = c1\<lparr>paused := True\<rparr>
              in (None, if \<not> wasPaused then observer_SafeEmit ''pause'' [] c2 else c2)))"

definition Resume :: "workerResponse \<Rightarrow> Consumer \<Rightarrow> error option \<times> Consumer" where
  "Resume reply c =
     (let wasPaused = (paused c \<or> producerPaused c);
          (response, ch) = Request ''consumer.resume'' (Some (c_internal c)) NoData reply
                             (c_channel c);
          c1 = c\<lparr>c_channel := ch\<rparr>
      in case Err response of
           Some e \<Rightarrow> (Some e, c1)
         | None \<Rightarrow>
             (let c2 = c1\<lparr>paused := False\<rparr>
              in (None, if wasPaused \<and> \<not> producerPaused c2
                        then observer_SafeEmit ''resume'' [] c2 else c2)))"

definition SetPreferredLayers :: "json_decoders \<Rightarrow> ConsumerLayers \<Rightarrow> workerResponse \<Rightarrow> Consumer
    \<Rightarrow> error option \<times> Consumer" where
  "SetPreferredLayers J layers reply c =
     (let (response, ch) = Request ''consumer.setPreferredLayers'' (Some (c_internal c))
                             (LayersData layers) reply (c_channel c);
          c1 = c\<lparr>c_channel := ch\<rparr>;
          (v, e) = Unmarshal (dec_layers J) response (preferredLayers c1)
      in (e, c1\<lparr>preferredLayers := v\<rparr>))"

definition SetPriority :: "json_decoders \<Rightarrow> 32 word \<Rightarrow> workerResponse \<Rightarrow> Consumer
    \<Rightarrow> error option \<times> Consumer" where
  "SetPriority J prio reply c =
     (let (response, ch) = Request ''consumer.setPriority'' (Some (c_internal c))
                             (PriorityData prio) reply (c_channel c);
          c1 = c\<lparr>c_channel := ch\<rparr>;
          (result, e) = Unmarshal (dec_priority J) response 0
      in case e of
           Some err \<Rightarrow> (Some err, c1)
         | None \<Rightarrow> (None, c1\<lparr>priority := result\<rparr>))"

definition UnsetPriority :: "json_decoders \<Rightarrow> workerResponse \<Rightarrow> Consumer
    \<Rightarrow> error option \<times> Consumer" where
  "UnsetPriority J reply c = SetPriority J 1 reply c"

definition RequestKeyFrame :: "workerResponse \<Rightarrow> Consumer \<Rightarrow> error option \<times> Consumer" where
  "RequestKeyFrame reply c =
     (let (response, ch) = Request ''consumer.requestKeyFrame'' (Some (c_internal c)) NoData
                             reply (c_channel c)
      in (Err response, c\<lparr>c_channel := ch\<rparr>))"

definition EnableTraceEvent :: "string list \<Rightarrow> workerResponse \<Rightarrow> Consumer
    \<Rightarrow> error option \<times> Consumer" where
  "EnableTraceEvent types reply c =
     (let (response, ch) = Request ''consumer.enableTraceEvent'' (Some (c_internal c))
                             (TypesData types) reply (c_channel c)
      in (Err response, c\<lparr>c_channel := ch\<rparr>))"

text \<open>The listener that \<^verbatim>\<open>handleWorkerNotifications\<close> registers on the channel.\<close>

definition on_channel_notification :: "json_decoders \<Rightarrow> string \<Rightarrow> bytes \<Rightarrow> Consumer \<Rightarrow> Consumer" where
  "on_channel_notification J event data c =
     (if event = ''producerclose'' then
        (case CompareAndSwap01 (closed c) of
           (True, v) \<Rightarrow>
             (let c1 = c\<lparr>closed := v\<rparr>;
                  c2 = c1\<lparr>c_channel :=
                           Channel_RemoveAllListeners (ConsumerId (c_internal c1)) (c_channel c1)\<rparr>;
                  c3 = Emit ''@producerclose'' [] c2;
                  c4 = Emit ''producerclose'' [] c3
              in observer_SafeEmit ''close'' [] c4)
         | (False, v) \<Rightarrow> c)
      else if event = ''producerpause'' then
        (if producerPaused c then c
         else
           (let wasPaused = (paused c \<or> producerPaused c);
                c1 = c\<lparr>producerPaused := True\<rparr>;
                c2 = Emit ''producerpause'' [] c1
            in if \<not> wasPaused then observer_SafeEmit ''pause'' [] c2 else c2))
      else if event = ''producerresume'' then
        (if \<not> producerPaused c then c
         else
           (let wasPaused = (paused c \<or> producerPaused c);
                c1 = c\<lparr>producerPaused := False\<rparr>;
                c2 = Emit ''producerresume'' [] c1
            in if wasPaused \<and> \<not> paused c2 then observer_SafeEmit ''resume'' [] c2 else c2))
      else if event = ''score'' then
        (let sc = fst (dec_score J data zero_ConsumerScore);
             c1 = c\<lparr>score := sc\<rparr>;
             c2 = Emit ''score'' [ScoreArg sc] c1
         in observer_SafeEmit ''score'' [ScoreArg sc] c2)
      else if event = ''layerschange'' then
        (let layers = fst (dec_layers J data zero_ConsumerLayers);
             c1 = c\<lparr>currentLayers := layers\<rparr>;
             c2 = Emit ''layerschange'' [LayersArg layers] c1
         in observer_SafeEmit ''layerschange'' [LayersArg layers] c2)
      else if event = ''trace'' then
        (let trace = fst (dec_trace J data zero_ConsumerTraceEventData);
             c1 = Emit ''trace'' [TraceArg trace] c
         in observer_SafeEmit ''trace'' [TraceArg trace] c1)
      else c)"

text \<open>The listener registered on the payload channel.\<close>

definition on_payload_notification :: "string \<Rightarrow> bytes \<Rightarrow> bytes \<Rightarrow> Consumer \<Rightarrow> Consumer" where
  "on_payload_notification event data payload c =
     (if event = ''rtp'' then
        (if Closed c then c else Emit ''rtp'' [PacketArg payload] c)
      else c)"

section \<open>RTP capabilities (mediasoup/rtp_capabilities.go)\<close>

text \<open>
  The capability table holds slices and pointers, and what a caller can do to the table
  through a value it was given depends on which arrays that value shares with the table.
  So slices and pointers are modelled as Go has them: a slice is a header (backing array,
  length, capacity; \<open>None\<close> is the nil slice), a pointer is an address (\<open>None\<close> is nil),
  and the arrays and the pointed-to records live in a memory indexed by address.
\<close>

type_synonym addr = nat

record slice =
  s_array :: addr
  s_len :: nat
  s_cap :: nat

record RtcpFeedback =
  fb_Type :: string
  fb_Parameter :: string

text \<open>\<^verbatim>\<open>RtpParameter\<close> embeds \<^verbatim>\<open>h264profile.RtpH264Parameter\<close>, whose declaration is not
  among the sources; the two fields of it that the table sets are kept.\<close>

record RtpParameter =
  PacketizationMode :: int
  LevelAsymmetryAllowed :: int
  Apt :: int
  Useinbandfec :: int

record RtpCodecCapability =
  Kind :: string
  MimeType :: string
  ClockRate :: int
  Channels :: int
  PreferredPayloadType :: int
  Parameters :: "addr option"
  RtcpFeedbacks :: "slice option"

record RtpHeaderExtension =
  hx_Kind :: string
  Uri :: string
  PreferredId :: int
  PreferredEncrypt :: bool

record RtpCapabilities =
  Codecs :: "slice option"
  HeaderExtensions :: "slice option"
  FecMechanisms :: "slice option"

text \<open>The memory: the backing arrays by element type, the \<^verbatim>\<open>RtpParameter\<close> records that
  pointers reach, and the package variable \<^verbatim>\<open>supportedRtpCapabilities\<close>.\<close>

record memory =
  codec_arrays :: "addr \<Rightarrow> RtpCodecCapability list option"
  feedback_arrays :: "addr \<Rightarrow> RtcpFeedback list option"
  hdrext_arrays :: "addr \<Rightarrow> RtpHeaderExtension list option"
  string_arrays :: "addr \<Rightarrow> string list option"
  parameter_cells :: "addr \<Rightarrow> RtpParameter option"
  supportedRtpCapabilities :: RtpCapabilities

definition audio_codec :: "string \<Rightarrow> int \<Rightarrow> int \<Rightarrow> int \<Rightarrow> RtpCodecCapability" where
  "audio_codec mime rate chans pt =
     \<lparr>Kind = ''audio'', MimeType = mime, ClockRate = rate, Channels = chans,
      PreferredPayloadType = pt, Parameters = None, RtcpFeedbacks = None\<rparr>"

definition video_codec :: "string \<Rightarrow> addr option \<Rightarrow> addr \<Rightarrow> RtpCodecCapability" where
  "video_codec mime params fb =
     \<lparr>Kind = ''video'', MimeType = mime, ClockRate = 90000, Channels = 0,
      PreferredPayloadType = 0, Parameters = params,
      RtcpFeedbacks = Some \<lparr>s_array = fb, s_len = 4, s_cap = 4\<rparr>\<rparr>"

definition video_feedback :: "RtcpFeedback list" where
  "video_feedback =
     [\<lparr>fb_Type = ''nack'', fb_Parameter = []\<rparr>,
      \<lparr>fb_Type = ''nack'', fb_Parameter = ''pli''\<rparr>,
      \<lparr>fb_Type = ''ccm'', fb_Parameter = ''fir''\<rparr>,
      \<lparr>fb_Type = ''goog-remb'', fb_Parameter = []\<rparr>]"

definition h264_parameter :: "int \<Rightarrow> RtpParameter" where
  "h264_parameter mode =
     \<lparr>PacketizationMode = mode, LevelAsymmetryAllowed = 1, Apt = 0, Useinbandfec = 0\<rparr>"

definition supported_codecs :: "RtpCodecCapability list" where
  "supported_codecs =
     [audio_codec ''audio/opus'' 48000 2 0,
      audio_codec ''audio/PCMU'' 8000 0 0,
      audio_codec ''audio/PCMA'' 8000 0 8,
      audio_codec ''audio/ISAC'' 32000 0 0,
      audio_codec ''audio/ISAC'' 16000 0 0,
      audio_codec ''audio/G722'' 8000 0 9,
      audio_codec ''audio/iLBC'' 8000 0 0,
      audio_codec ''audio/SILK'' 24000 0 0,
      audio_codec ''audio/SILK'' 16000 0 0,
      audio_codec ''audio/SILK'' 12000 0 0,
      audio_codec ''audio/SILK'' 8000 0 0,
      audio_codec ''audio/CN'' 32000 0 13,
      audio_codec ''audio/CN'' 16000 0 13,
      audio_codec ''audio/CN'' 8000 0 13,
      audio_codec ''audio/telephone-event'' 48000 0 0,
      audio_codec ''audio/telephone-event'' 32000 0 0,
      audio_codec ''audio/telephone-event'' 16000 0 0,
      audio_codec ''audio/telephone-event'' 8000 0 0,
      video_codec ''video/VP8'' None 0,
      video_codec ''video/VP9'' None 1,
      video_codec ''video/H264'' (Some 0) 2,
      video_codec ''video/H264'' (Some 1) 3,
      video_codec ''video/H265'' (Some 2) 4,
      video_codec ''video/H265'' (Some 3) 5]"

definition header_extension :: "string \<Rightarrow> string \<Rightarrow> int \<Rightarrow> RtpHeaderExtension" where
  "header_extension k u i = \<lparr>hx_Kind = k, Uri = u, PreferredId = i, PreferredEncrypt = False\<rparr>"

definition supported_header_extensions :: "RtpHeaderExtension list" where
  "supported_header_extensions =
     [header_extension ''audio'' ''urn:ietf:params:rtp-hdrext:ssrc-audio-level'' 1,
      header_extension ''video'' ''urn:ietf:params:rtp-hdrext:toffset'' 2,
      header_extension ''audio'' ''http://www.webrtc.org/experiments/rtp-hdrext/abs-send-time'' 3,
      header_extension ''video'' ''http://www.webrtc.org/experiments/rtp-hdrext/abs-send-time'' 3,
      header_extension ''video'' ''urn:3gpp:video-orientation'' 4,
      header_extension ''audio'' ''urn:ietf:params:rtp-hdrext:sdes:mid'' 5,
      header_extension ''video'' ''urn:ietf:params:rtp-hdrext:sdes:mid'' 5,
      header_extension ''video'' ''urn:ietf:params:rtp-hdrext:sdes:rtp-stream-id'' 6,
      header_extension ''video'' ''urn:ietf:params:rtp-hdrext:sdes:repaired-rtp-stream-id'' 7]"

text \<open>The memory after package initialisation: the composite literal of
  \<^verbatim>\<open>supportedRtpCapabilities\<close> allocates one array of 24 codecs, one array of four
  feedbacks for each of the six video codecs, one \<^verbatim>\<open>RtpParameter\<close> for each of the four
  H264 and H265 entries, and one array of nine header extensions; \<^verbatim>\<open>FecMechanisms\<close>
  is nil.\<close>

definition init_memory :: memory where
  "init_memory =
     \<lparr>codec_arrays = (\<lambda>a. if a = 0 then Some supported_codecs else None),
      feedback_arrays = (\<lambda>a. if a < 6 then Some video_feedback else None),
      hdrext_arrays = (\<lambda>a. if a = 0 then Some supported_header_extensions else None),
      string_arrays = (\<lambda>a. None),
      parameter_cells = (\<lambda>a. if a = 0 \<or> a = 2 then Some (h264_parameter 1)
                              else if a = 1 \<or> a = 3 then Some (h264_parameter 0) else None),
      supportedRtpCapabilities =
        \<lparr>Codecs = Some \<lparr>s_array = 0, s_len = 24, s_cap = 24\<rparr>,
         HeaderExtensions = Some \<lparr>s_array = 0, s_len = 9, s_cap = 9\<rparr>,
         FecMechanisms = None\<rparr>\<rparr>"

text \<open>
  \<^verbatim>\<open>copier.Copy(&to, &from)\<close> of the library \<^verbatim>\<open>github.com/jinzhu/copier\<close>, for two
  structs of the same type: it goes through the fields of \<open>from\<close> and sets the field of
  the same name in \<open>to\<close> by reflection (\<^verbatim>\<open>to.Set(from)\<close>). A field of slice type is set
  to the same slice header: no array is allocated and no element is copied (copying the
  elements is the \<^verbatim>\<open>DeepCopy\<close> option of \<^verbatim>\<open>copier.CopyWithOption\<close>, which the code does
  not use). All three fields of \<^verbatim>\<open>RtpCapabilities\<close> are slices.
\<close>

definition copier_Copy :: "RtpCapabilities \<Rightarrow> RtpCapabilities \<Rightarrow> RtpCapabilities" where
  "copier_Copy to from =
     to\<lparr>Codecs := Codecs from, HeaderExtensions := HeaderExtensions from,
        FecMechanisms := FecMechanisms from\<rparr>"

definition zero_RtpCapabilities :: RtpCapabilities where
  "zero_RtpCapabilities = \<lparr>Codecs = None, HeaderExtensions = None, FecMechanisms = None\<rparr>"

definition GetSupportedRtpCapabilities :: "memory \<Rightarrow> RtpCapabilities" where
  "GetSupportedRtpCapabilities m = copier_Copy zero_RtpCapabilities (supportedRtpCapabilities m)"

text \<open>What a holder of a capabilities value reads through it: the codecs with the
  parameters and feedbacks they reach, and the header extensions. \<open>None\<close> where Go would
  panic (a header that points outside the memory).\<close>

record codec_view =
  v_codec :: RtpCodecCapability
  v_parameters :: "RtpParameter option"
  v_feedback :: "RtcpFeedback list"

definition read_slice :: "(addr \<Rightarrow> 'a list option) \<Rightarrow> slice option \<Rightarrow> 'a list option" where
  "read_slice arrays s =
     (case s of
        None \<Rightarrow> Some []
      | Some h \<Rightarrow>
          (case arrays (s_array h) of
             None \<Rightarrow> None
           | Some xs \<Rightarrow> if s_len h \<le> length xs then Some (take (s_len h) xs) else None))"

definition view_codec :: "memory \<Rightarrow> RtpCodecCapability \<Rightarrow> codec_view" where
  "view_codec m c =
     \<lparr>v_codec = c,
      v_parameters = (case Parameters c of None \<Rightarrow> None | Some a \<Rightarrow> parameter_cells m a),
      v_feedback = (case read_slice (feedback_arrays m) (RtcpFeedbacks c) of
                      None \<Rightarrow> [] | Some fs \<Rightarrow> fs)\<rparr>"

definition read_codecs :: "memory \<Rightarrow> RtpCapabilities \<Rightarrow> codec_view list option" where
  "read_codecs m caps = map_option (map (view_codec m)) (read_slice (codec_arrays m) (Codecs caps))"

definition read_header_extensions :: "memory \<Rightarrow> RtpCapabilities \<Rightarrow> RtpHeaderExtension list option" where
  "read_header_extensions m caps = read_slice (hdrext_arrays m) (HeaderExtensions caps)"

text \<open>Assignments a caller can make through a capabilities value \<open>caps\<close>:
  \<^verbatim>\<open>caps.Codecs[i].MimeType = s\<close>, \<^verbatim>\<open>caps.Codecs[i].Parameters.PacketizationMode = n\<close>,
  \<^verbatim>\<open>caps.Codecs[i].RtcpFeedback[j].Type = s\<close> and \<^verbatim>\<open>caps.Codecs = nil\<close>. The first three
  write to the memory; the last changes the caller's own struct. \<open>None\<close> is a panic
  (index out of range, nil pointer).\<close>

datatype mutation =
    SetCodecMimeType nat string
  | SetCodecPacketizationMode nat int
  | SetCodecFeedbackType nat nat string
  | SetCodecsNil

definition codec_at :: "memory \<Rightarrow> RtpCapabilities \<Rightarrow> nat \<Rightarrow> (addr \<times> RtpCodecCapability list) option" where
  "codec_at m caps i =
     (case Codecs caps of
        None \<Rightarrow> None
      | Some h \<Rightarrow>
          (case codec_arrays m (s_array h) of
             None \<Rightarrow> None
           | Some xs \<Rightarrow> if i < s_len h \<and> s_len h \<le> length xs then Some (s_array h, xs) else None))"

fun mutate :: "mutation \<Rightarrow> RtpCapabilities \<Rightarrow> memory \<Rightarrow> (RtpCapabilities \<times> memory) option" where
  "mutate (SetCodecMimeType i s) caps m =
     (case codec_at m caps i of
        None \<Rightarrow> None
      | Some (a, xs) \<Rightarrow>
          Some (caps, m\<lparr>codec_arrays := (codec_arrays m)(a := Some (xs[i := (xs ! i)\<lparr>MimeType := s\<rparr>]))\<rparr>))"
| "mutate (SetCodecPacketizationMode i n) caps m =
     (case codec_at m caps i of
        None \<Rightarrow> None
      | Some (a, xs) \<Rightarrow>
          (case Parameters (xs ! i) of
             None \<Rightarrow> None
           | Some pa \<Rightarrow>
               (case parameter_cells m pa of
                  None \<Rightarrow> None
                | Some par \<Rightarrow>
                    Some (caps, m\<lparr>parameter_cells :=
                                    (parameter_cells m)(pa := Some (par\<lparr>PacketizationMode := n\<rparr>))\<rparr>))))"
| "mutate (SetCodecFeedbackType i j s) caps m =
     (case codec_at m caps i of
        None \<Rightarrow> None
      | Some (a, xs) \<Rightarrow>
          (case RtcpFeedbacks (xs ! i) of
             None \<Rightarrow> None
           | Some h \<Rightarrow>
               (case feedback_arrays m (s_array h) of
                  None \<Rightarrow> None
                | Some fs \<Rightarrow>
                    if j < s_len h \<and> s_len h \<le> length fs
                    then Some (caps, m\<lparr>feedback_arrays :=
                                         (feedback_arrays m)(s_array h :=
                                            Some (fs[j := (fs ! j)\<lparr>fb_Type := s\<rparr>]))\<rparr>)
                    else None)))"
| "mutate SetCodecsNil caps m = Some (caps\<lparr>Codecs := None\<rparr>, m)"

section \<open>Worker (worker.go)\<close>

text \<open>\<^verbatim>\<open>strconv.Itoa\<close> and the verb \<^verbatim>\<open>%d\<close>: an integer in decimal.\<close>

function Itoa_nat :: "nat \<Rightarrow> string" where
  "Itoa_nat n =
     (if n < 10 then [''0123456789'' ! n] else Itoa_nat (n div 10) @ [''0123456789'' ! (n mod 10)])"
  by pat_completeness auto
termination
  by (relation "measure (\<lambda>n. n)") auto

declare Itoa_nat.simps [simp del]

definition Itoa :: "int \<Rightarrow> string" where
  "Itoa i = (if i < 0 then CHR ''-'' # Itoa_nat (nat (- i)) else Itoa_nat (nat i))"

record WorkerSettings =
  LogLevel :: string
  LogTags :: "string list"
  RTCMinPort :: "16 word"
  RTCMaxPort :: "16 word"
  DTLSCertificateFile :: string
  DTLSPrivateKeyFile :: string
  AppData :: json

text \<open>\<^verbatim>\<open>WorkerResourceUsage\<close>; the two \<^verbatim>\<open>float32\<close> fields are kept as their bit patterns.\<close>

record WorkerResourceUsage =
  RU_Utime :: "32 word"
  RU_Stime :: "32 word"
  RU_Maxrss :: int
  RU_Ixrss :: int
  RU_Idrss :: int
  RU_Isrss :: int
  RU_Minflt :: int
  RU_Majflt :: int
  RU_Nswap :: int
  RU_Inblock :: int
  RU_Oublock :: int
  RU_Msgsnd :: int
  RU_Msgrcv :: int
  RU_Nsignals :: int
  RU_Nvcsw :: int
  RU_Nivcsw :: int

definition zero_WorkerResourceUsage :: WorkerResourceUsage where
  "zero_WorkerResourceUsage =
     \<lparr>RU_Utime = 0, RU_Stime = 0, RU_Maxrss = 0, RU_Ixrss = 0, RU_Idrss = 0, RU_Isrss = 0,
      RU_Minflt = 0, RU_Majflt = 0, RU_Nswap = 0, RU_Inblock = 0, RU_Oublock = 0,
      RU_Msgsnd = 0, RU_Msgrcv = 0, RU_Nsignals = 0, RU_Nvcsw = 0, RU_Nivcsw = 0\<rparr>"

text \<open>Modelled from the spec: \<^verbatim>\<open>Router\<close>, \<^verbatim>\<open>RouterOptions\<close> and \<^verbatim>\<open>newRouter\<close> are not
  among the sources. A router is made from its scope tuple, its capabilities and the
  application data; \<open>r_handlers\<close> are the events of the router that have a handler.\<close>

record Router =
  r_internal :: internalData
  r_rtpCapabilities :: RtpCapabilities
  r_appData :: json
  r_handlers :: "string list"

record RouterOptions =
  MediaCodecs :: "RtpCodecCapability list"
  ro_AppData :: json

record routerOptions =
  o_internal :: internalData
  o_data :: RtpCapabilities
  o_channel :: Channel
  o_payloadChannel :: PayloadChannel
  o_appData :: json

definition newRouter :: "routerOptions \<Rightarrow> Router" where
  "newRouter opts =
     \<lparr>r_internal = o_internal opts, r_rtpCapabilities = o_data opts, r_appData = o_appData opts,
      r_handlers = []\<rparr>"

definition Router_On :: "string \<Rightarrow> Router \<Rightarrow> Router" where
  "Router_On ev r = r\<lparr>r_handlers := r_handlers r @ [ev]\<rparr>"

datatype worker_arg = ErrorArg error | RouterArg Router

type_synonym worker_event = "string \<times> worker_arg list"

text \<open>Calls the Worker makes on objects that are not part of its record: a signal sent to
  the child process, and \<^verbatim>\<open>router.workerClosed()\<close> on the router stored under an id.\<close>

datatype outcall = ChildSignal string | RouterWorkerClosed string

text \<open>The fields of \<^verbatim>\<open>Worker\<close>. \<open>child\<close> is the process handle (\<open>None\<close> is nil),
  \<open>routers\<close> the \<^verbatim>\<open>sync.Map\<close> from router id to router.\<close>

record Worker =
  w_emitted :: "worker_event list"
  child :: "int option"
  pid :: int
  w_channel :: Channel
  w_payloadChannel :: PayloadChannel
  w_closed :: bool
  w_appData :: json
  routers :: "(string \<times> Router) list"
  w_observer :: "worker_event list"
  spawnDone :: bool
  w_calls :: "outcall list"

definition sync_Store :: "string \<Rightarrow> 'v \<Rightarrow> (string \<times> 'v) list \<Rightarrow> (string \<times> 'v) list" where
  "sync_Store k v m = filter (\<lambda>(k', v'). k' \<noteq> k) m @ [(k, v)]"

definition sync_Delete :: "string \<Rightarrow> (string \<times> 'v) list \<Rightarrow> (string \<times> 'v) list" where
  "sync_Delete k m = filter (\<lambda>(k', v'). k' \<noteq> k) m"

definition default_settings :: WorkerSettings where
  "default_settings =
     \<lparr>LogLevel = ''error'', LogTags = [], RTCMinPort = 10000, RTCMaxPort = 59999,
      DTLSCertificateFile = [], DTLSPrivateKeyFile = [], AppData = JObject []\<rparr>"

text \<open>Modelled from the spec: \<^verbatim>\<open>newChannel\<close> and \<^verbatim>\<open>newPayloadChannel\<close> are not among the
  sources; a new channel is open, has written nothing and has no listener.\<close>

definition newChannel :: Channel where
  "newChannel = \<lparr>ch_closed = False, ch_sent = [], ch_listeners = []\<rparr>"

definition newPayloadChannel :: PayloadChannel where
  "newPayloadChannel = \<lparr>pch_closed = False, pch_listeners = []\<rparr>"

text \<open>
  \<^verbatim>\<open>NewWorker\<close>. \<open>spawn\<close> is what the operating system answers to the socket pairs, the
  pipes and \<^verbatim>\<open>child.Start()\<close>: the first error, or the pid of the started child. The two
  goroutines that copy the child's output to the logger have no effect on the Worker.
  The function ends by registering a one-shot listener for the pid on the channel
  (\<open>NewWorker_on_notification\<close> below) and by starting a goroutine that runs
  \<^verbatim>\<open>worker.child.Wait()\<close> (\<open>NewWorker_on_child_exit\<close> below).
\<close>

definition NewWorker :: "(WorkerSettings \<Rightarrow> WorkerSettings) list \<Rightarrow> error + int \<Rightarrow> error + Worker" where
  "NewWorker options spawn =
     (let settings = foldl (\<lambda>s option. option s) default_settings options
      in case spawn of
           Inl e \<Rightarrow> Inl e
         | Inr p \<Rightarrow>
             Inr \<lparr>w_emitted = [], child = Some p, pid = p,
                  w_channel = Channel_On (Itoa p) newChannel,
                  w_payloadChannel = newPayloadChannel,
                  w_closed = False, w_appData = AppData settings, routers = [],
                  w_observer = [], spawnDone = False, w_calls = []\<rparr>)"

text \<open>The listener given to \<^verbatim>\<open>channel.Once\<close> in \<^verbatim>\<open>NewWorker\<close>.\<close>

definition NewWorker_on_notification :: "string \<Rightarrow> Worker \<Rightarrow> Worker" where
  "NewWorker_on_notification event w =
     (if \<not> spawnDone w \<and> event = ''running''
      then (w\<lparr>spawnDone := True\<rparr>)\<lparr>w_emitted := w_emitted w @ [(''@success'', [])]\<rparr>
      else w)"

definition Worker_Closed :: "Worker \<Rightarrow> bool" where
  "Worker_Closed w = w_closed w"

definition Worker_Close :: "Worker \<Rightarrow> Worker" where
  "Worker_Close w =
     (if w_closed w then w
      else
        (let w1 = w\<lparr>w_closed := True\<rparr>;
             w2 = (case child w1 of
                     Some p \<Rightarrow> w1\<lparr>w_calls := w_calls w1 @ [ChildSignal ''SIGTERM''], child := None\<rparr>
                   | None \<Rightarrow> w1);
             w3 = w2\<lparr>w_channel := Channel_Close (w_channel w2)\<rparr>;
             w4 = w3\<lparr>w_payloadChannel := PayloadChannel_Close (w_payloadChannel w3)\<rparr>;
             w5 = w4\<lparr>w_calls := w_calls w4 @ map (\<lambda>(k, r). RouterWorkerClosed k) (routers w4)\<rparr>;
             w6 = w5\<lparr>routers := []\<rparr>
         in w6\<lparr>w_observer := w_observer w6 @ [(''close'', [])]\<rparr>))"

text \<open>What \<^verbatim>\<open>child.Wait()\<close> returns: no error, an \<^verbatim>\<open>*exec.ExitError\<close> (with the wait
  status, when the system gives one) or another error.\<close>

record WaitStatus =
  ExitStatus :: int
  Signaled :: bool
  Signal :: string
  Stopped :: bool
  StopSignal :: string

datatype wait_result = WaitOk | ExitError "WaitStatus option" | WaitFailed string

definition exit_message :: "int \<Rightarrow> int \<Rightarrow> string \<Rightarrow> string" where
  "exit_message p code signal =
     ''[pid:'' @ Itoa p @ '', code:'' @ Itoa code @ '', signal:'' @ signal @ '']''"

text \<open>The exit code and the signal name that \<^verbatim>\<open>Worker.wait\<close> reads from the error
  of \<^verbatim>\<open>Wait\<close>: both keep their initial values \<open>0\<close> and the empty string unless the error
  is an \<^verbatim>\<open>*exec.ExitError\<close> with a wait status.\<close>

definition exit_code_signal :: "wait_result \<Rightarrow> int \<times> string" where
  "exit_code_signal err =
     (case err of
        ExitError (Some status) \<Rightarrow>
          (ExitStatus status,
           if Signaled status then Signal status
           else if Stopped status then StopSignal status else [])
      | _ \<Rightarrow> (0, []))"

text \<open>The method \<^verbatim>\<open>Worker.wait\<close>; \<open>err\<close> is what \<^verbatim>\<open>w.child.Wait()\<close> returns.\<close>

definition wait :: "wait_result \<Rightarrow> Worker \<Rightarrow> Worker" where
  "wait err w =
     (let w1 = w\<lparr>child := None\<rparr>;
          w2 = Worker_Close w1;
          (code, signal) = exit_code_signal err
      in if \<not> spawnDone w2 then
           (let w3 = w2\<lparr>spawnDone := True\<rparr>
            in if code = 42
               then w3\<lparr>w_emitted := w_emitted w3 @
                         [(''@failure'', [ErrorArg (TypeError ''wrong settings'')])]\<rparr>
               else w3\<lparr>w_emitted := w_emitted w3 @
                         [(''@failure'', [ErrorArg (GoError (exit_message (pid w3) code signal))])]\<rparr>)
         else w2\<lparr>w_emitted := w_emitted w2 @
                    [(''died'', [ErrorArg (GoError (exit_message (pid w2) code signal))])]\<rparr>)"

text \<open>
  The goroutine that \<^verbatim>\<open>NewWorker\<close> starts last is \<^verbatim>\<open>go worker.child.Wait()\<close>: it waits
  for the child and drops what \<^verbatim>\<open>Wait\<close> returns. It does not call the method \<^verbatim>\<open>wait\<close>,
  and nothing else in the sources does. So when the child exits, the Worker stays as it is.
\<close>

definition NewWorker_on_child_exit :: "wait_result \<Rightarrow> Worker \<Rightarrow> Worker" where
  "NewWorker_on_child_exit err w = w"

definition Worker_Dump :: "workerResponse \<Rightarrow> Worker \<Rightarrow> (bytes \<times> error option) \<times> Worker" where
  "Worker_Dump reply w =
     (let (resp, ch) = Request ''worker.dump'' None NoData reply (w_channel w)
      in ((Data resp, Err resp), w\<lparr>w_channel := ch\<rparr>))"

definition GetResourceUsage ::
  "(bytes \<Rightarrow> WorkerResourceUsage \<Rightarrow> WorkerResourceUsage \<times> error option) \<Rightarrow> workerResponse \<Rightarrow> Worker
    \<Rightarrow> (WorkerResourceUsage \<times> error option) \<times> Worker" where
  "GetResourceUsage dec reply w =
     (let (resp, ch) = Request ''worker.getResourceUsage'' None NoData reply (w_channel w)
      in (Unmarshal dec resp zero_WorkerResourceUsage, w\<lparr>w_channel := ch\<rparr>))"

definition UpdateSettings :: "WorkerUpdateableSettings \<Rightarrow> workerResponse \<Rightarrow> Worker
    \<Rightarrow> error option \<times> Worker" where
  "UpdateSettings settings reply w =
     (let (resp, ch) = Request ''worker.updateSettings'' None (SettingsData settings) reply
                         (w_channel w)
      in (Err resp, w\<lparr>w_channel := ch\<rparr>))"

definition empty_internal :: internalData where
  "empty_internal =
     \<lparr>RouterId = [], TransportId = [], ProducerId = [], ConsumerId = [],
      DataProducerId = [], DataConsumerId = []\<rparr>"

text \<open>\<^verbatim>\<open>CreateRouter\<close>. \<open>uuid\<close> is the string of \<^verbatim>\<open>uuid.NewV4()\<close>;
  \<open>generateRouterRtpCapabilities\<close> is not among the sources and is a parameter.\<close>

definition CreateRouter ::
  "string \<Rightarrow> (RtpCodecCapability list \<Rightarrow> error + RtpCapabilities) \<Rightarrow> workerResponse
    \<Rightarrow> RouterOptions \<Rightarrow> Worker \<Rightarrow> (error + Router) \<times> Worker" where
  "CreateRouter uuid generateRouterRtpCapabilities reply options w =
     (let internal = empty_internal\<lparr>RouterId := uuid\<rparr>;
          (rsp, ch) = Request ''worker.createRouter'' (Some internal) NilData reply (w_channel w);
          w1 = w\<lparr>w_channel := ch\<rparr>
      in case Err rsp of
           Some e \<Rightarrow> (Inl e, w1)
         | None \<Rightarrow>
             (case generateRouterRtpCapabilities (MediaCodecs options) of
                Inl e \<Rightarrow> (Inl e, w1)
              | Inr rtpCapabilities \<Rightarrow>
                  (let router0 = newRouter
                         \<lparr>o_internal = internal, o_data = rtpCapabilities,
                          o_channel = w_channel w1, o_payloadChannel = w_payloadChannel w1,
                          o_appData = ro_AppData options\<rparr>;
                       router = Router_On ''@close'' router0;
                       w2 = w1\<lparr>routers := sync_Store (RouterId internal) router (routers w1)\<rparr>
                   in (Inr router,
                       w2\<lparr>w_observer := w_observer w2 @ [(''newrouter'', [RouterArg router])]\<rparr>))))"

text \<open>The handler that \<^verbatim>\<open>CreateRouter\<close> registers for the router's \<^verbatim>\<open>@close\<close>.\<close>

definition CreateRouter_on_router_close :: "string \<Rightarrow> Worker \<Rightarrow> Worker" where
  "CreateRouter_on_router_close routerId w = w\<lparr>routers := sync_Delete routerId (routers w)\<rparr>"

section \<open>PipeTransport (mediasoup/rtp_capabilities.go, second part)\<close>

text \<open>Modelled from the spec: \<^verbatim>\<open>Producer\<close> is not among the sources; the code reads its
  kind and its consumable RTP parameters.\<close>

record Producer =
  prod_Id :: string
  prod_Kind :: string
  prod_ConsumableRtpParameters :: RtpParameters

datatype transport_arg = ConsumerArg Consumer | SctpStateArg string | TransportTraceArg json

type_synonym transport_event = "string \<times> transport_arg list"

text \<open>
  Modelled from the spec: the base \<^verbatim>\<open>Transport\<close> behind the interface \<^verbatim>\<open>ITransport\<close> is
  not among the sources. It has the closed flag that \<^verbatim>\<open>Closed()\<close> reads, the map of
  the consumers it owns, its emitter and its observer. \<^verbatim>\<open>Close\<close> and \<^verbatim>\<open>routerClosed\<close>
  are terminal and idempotent: the first one sets the flag, closes every consumer with
  \<^verbatim>\<open>transportClosed\<close> and tells the observer \<^verbatim>\<open>close\<close> once; a later one does nothing.
\<close>

record Transport =
  t_closed :: bool
  consumers :: "(string \<times> Consumer) list"
  t_emitted :: "transport_event list"
  t_observer :: "transport_event list"

definition newTransport :: Transport where
  "newTransport = \<lparr>t_closed = False, consumers = [], t_emitted = [], t_observer = []\<rparr>"

definition Transport_Closed :: "Transport \<Rightarrow> bool" where
  "Transport_Closed t = t_closed t"

definition Transport_Close :: "Transport \<Rightarrow> Transport" where
  "Transport_Close t =
     (if t_closed t then t
      else t\<lparr>t_closed := True,
             consumers := map (\<lambda>(k, c). (k, transportClosed c)) (consumers t),
             t_emitted := t_emitted t @ [(''@close'', [])],
             t_observer := t_observer t @ [(''close'', [])]\<rparr>)"

definition Transport_routerClosed :: "Transport \<Rightarrow> Transport" where
  "Transport_routerClosed t =
     (if t_closed t then t
      else t\<lparr>t_closed := True,
             consumers := map (\<lambda>(k, c). (k, transportClosed c)) (consumers t),
             t_emitted := t_emitted t @ [(''routerclose'', [])],
             t_observer := t_observer t @ [(''close'', [])]\<rparr>)"

record pipeTransortData =
  tuple :: TransportTuple
  sctpParameters :: json
  sctpState :: string
  rtx :: bool
  srtpParameters :: json

record transportParams =
  tp_internal :: internalData
  tp_channel :: Channel
  tp_payloadChannel :: PayloadChannel
  tp_getProducerById :: "string \<Rightarrow> Producer option"

record PipeTransport =
  ITransport :: Transport
  pt_internal :: internalData
  pt_data :: pipeTransortData
  pt_channel :: Channel
  pt_payloadChannel :: PayloadChannel
  getProducerById :: "string \<Rightarrow> Producer option"

record ConsumerOptions =
  co_ProducerId :: string
  co_RtpCapabilities :: RtpCapabilities
  co_Paused :: bool
  co_PreferredLayers :: ConsumerLayers
  co_AppData :: json

record consume_status =
  st_Paused :: bool
  st_ProducerPaused :: bool

text \<open>The decoders of \<^verbatim>\<open>encoding/json\<close> at the types the pipe transport decodes into.\<close>

record pipe_decoders =
  dec_tuple :: "bytes \<Rightarrow> TransportTuple \<Rightarrow> TransportTuple \<times> error option"
  dec_status :: "bytes \<Rightarrow> consume_status \<Rightarrow> consume_status \<times> error option"
  dec_sctpState :: "bytes \<Rightarrow> string \<Rightarrow> string \<times> error option"
  dec_transport_trace :: "bytes \<Rightarrow> json \<Rightarrow> json \<times> error option"

definition zero_TransportTuple :: TransportTuple where
  "zero_TransportTuple = \<lparr>LocalIp = [], LocalPort = 0, RemoteIp = [], RemotePort = 0\<rparr>"

definition newPipeTransport :: "transportParams \<Rightarrow> pipeTransortData \<Rightarrow> PipeTransport" where
  "newPipeTransport params data =
     \<lparr>ITransport = newTransport,
      pt_internal = tp_internal params,
      pt_data = data,
      pt_channel = Channel_On (TransportId (tp_internal params)) (tp_channel params),
      pt_payloadChannel = tp_payloadChannel params,
      getProducerById = tp_getProducerById params\<rparr>"

text \<open>The constant \<^verbatim>\<open>SctpState_Closed\<close> is declared outside the sources; it is the
  SCTP state name \<^verbatim>\<open>closed\<close>.\<close>

definition SctpState_Closed :: string where
  "SctpState_Closed = ''closed''"

definition PipeTransport_Closed :: "PipeTransport \<Rightarrow> bool" where
  "PipeTransport_Closed t = Transport_Closed (ITransport t)"

definition PipeTransport_Close :: "PipeTransport \<Rightarrow> PipeTransport" where
  "PipeTransport_Close t =
     (if PipeTransport_Closed t then t
      else
        (let t1 = (if length (sctpState (pt_data t)) > 0
                   then t\<lparr>pt_data := (pt_data t)\<lparr>sctpState := SctpState_Closed\<rparr>\<rparr> else t)
         in t1\<lparr>ITransport := Transport_Close (ITransport t1)\<rparr>))"

definition PipeTransport_routerClosed :: "PipeTransport \<Rightarrow> PipeTransport" where
  "PipeTransport_routerClosed t =
     (if PipeTransport_Closed t then t
      else
        (let t1 = (if length (sctpState (pt_data t)) > 0
                   then t\<lparr>pt_data := (pt_data t)\<lparr>sctpState := SctpState_Closed\<rparr>\<rparr> else t)
         in t1\<lparr>ITransport := Transport_routerClosed (ITransport t1)\<rparr>))"

definition Connect :: "pipe_decoders \<Rightarrow> TransportConnectOptions \<Rightarrow> workerResponse \<Rightarrow> PipeTransport
    \<Rightarrow> error option \<times> PipeTransport" where
  "Connect J options reply t =
     (let reqData = \<lparr>Ip = Ip options, Port = Port options, SrtpParameters = SrtpParameters options\<rparr>;
          (resp, ch) = Request ''transport.connect'' (Some (pt_internal t)) (ConnectData reqData)
                         reply (pt_channel t);
          t1 = t\<lparr>pt_channel := ch\<rparr>;
          (data, e) = Unmarshal (dec_tuple J) resp zero_TransportTuple
      in case e of
           Some err \<Rightarrow> (Some err, t1)
         | None \<Rightarrow> (None, t1\<lparr>pt_data := (pt_data t1)\<lparr>tuple := data\<rparr>\<rparr>))"

definition producer_not_found :: "string \<Rightarrow> error" where
  "producer_not_found producerId =
     GoError (''Producer with id '' @ [CHR 0x22] @ producerId @ [CHR 0x22] @ '' not found'')"

text \<open>\<^verbatim>\<open>PipeTransport.Consume\<close>. \<open>uuid\<close> is the string of \<^verbatim>\<open>uuid.NewV4()\<close>;
  \<open>getPipeConsumerRtpParameters\<close> is not among the sources and is a parameter. The new
  consumer gets the transport's channels, registers its listeners on them, and is stored
  in the consumers of the base transport under its id; the two handlers set on the
  consumer (for \<^verbatim>\<open>@close\<close> and \<^verbatim>\<open>@producerclose\<close>) are
  \<open>Consume_on_consumer_close\<close> below.\<close>

definition Consume ::
  "pipe_decoders \<Rightarrow> string \<Rightarrow> (RtpParameters \<Rightarrow> bool \<Rightarrow> RtpParameters) \<Rightarrow> ConsumerOptions
    \<Rightarrow> workerResponse \<Rightarrow> PipeTransport \<Rightarrow> (error + Consumer) \<times> PipeTransport" where
  "Consume J uuid getPipeConsumerRtpParameters options reply t =
     (let producerId = co_ProducerId options;
          appData = co_AppData options
      in case getProducerById t producerId of
           None \<Rightarrow> (Inl (producer_not_found producerId), t)
         | Some producer \<Rightarrow>
             (let rtpParameters = getPipeConsumerRtpParameters
                                    (prod_ConsumableRtpParameters producer) (rtx (pt_data t));
                  internal = (pt_internal t)\<lparr>ConsumerId := uuid, ProducerId := producerId\<rparr>;
                  reqData = ConsumeData (prod_Kind producer) rtpParameters ''pipe''
                              (Encodings (prod_ConsumableRtpParameters producer));
                  (resp, ch) = Request ''transport.consume'' (Some internal) reqData reply
                                 (pt_channel t);
                  t1 = t\<lparr>pt_channel := ch\<rparr>;
                  (status, e) = Unmarshal (dec_status J) resp
                                  \<lparr>st_Paused = False, st_ProducerPaused = False\<rparr>
              in case e of
                   Some err \<Rightarrow> (Inl err, t1)
                 | None \<Rightarrow>
                     (let cdata = \<lparr>cd_Kind = prod_Kind producer, cd_Type = ''pipe'',
                                   cd_RtpParameters = rtpParameters\<rparr>;
                          consumer0 = newConsumer
                            \<lparr>p_internal = internal, p_data = cdata,
                             p_channel = pt_channel t1, p_payloadChannel = pt_payloadChannel t1,
                             p_appData = appData, p_paused = st_Paused status,
                             p_producerPaused = st_ProducerPaused status,
                             p_score = zero_ConsumerScore,
                             p_preferredLayers = zero_ConsumerLayers\<rparr>;
                          consumer = consumer0\<lparr>handlers := handlers consumer0 @
                                                   [''@close'', ''@producerclose'']\<rparr>;
                          t2 = t1\<lparr>pt_channel := c_channel consumer,
                                  pt_payloadChannel := c_payloadChannel consumer\<rparr>;
                          base = ITransport t2;
                          base1 = base\<lparr>consumers :=
                                    sync_Store (ConsumerId (c_internal consumer)) consumer
                                      (consumers base)\<rparr>;
                          base2 = base1\<lparr>t_observer := t_observer base1 @
                                           [(''newconsumer'', [ConsumerArg consumer])]\<rparr>
                      in (Inr consumer, t2\<lparr>ITransport := base2\<rparr>))))"

definition Consume_on_consumer_close :: "string \<Rightarrow> PipeTransport \<Rightarrow> PipeTransport" where
  "Consume_on_consumer_close consumerId t =
     t\<lparr>ITransport := (ITransport t)\<lparr>consumers := sync_Delete consumerId (consumers (ITransport t))\<rparr>\<rparr>"

text \<open>The listener that \<^verbatim>\<open>PipeTransport.handleWorkerNotifications\<close> registers.\<close>

definition PipeTransport_on_notification :: "pipe_decoders \<Rightarrow> string \<Rightarrow> bytes \<Rightarrow> PipeTransport
    \<Rightarrow> PipeTransport" where
  "PipeTransport_on_notification J event data t =
     (if event = ''sctpstatechange'' then
        (let st = fst (dec_sctpState J data []);
             t1 = t\<lparr>pt_data := (pt_data t)\<lparr>sctpState := st\<rparr>\<rparr>;
             base = ITransport t1
         in t1\<lparr>ITransport := base\<lparr>t_emitted := t_emitted base @
                                       [(''sctpstatechange'', [SctpStateArg st])],
                                    t_observer := t_observer base @
                                       [(''sctpstatechange'', [SctpStateArg st])]\<rparr>\<rparr>)
      else if event = ''trace'' then
        (let tr = fst (dec_transport_trace J data JNull);
             base = ITransport t
         in t\<lparr>ITransport := base\<lparr>t_emitted := t_emitted base @
                                      [(''trace'', [TransportTraceArg tr])],
                                   t_observer := t_observer base @
                                      [(''trace'', [TransportTraceArg tr])]\<rparr>\<rparr>)
      else t)"

section \<open>Notions used to state the properties\<close>

text \<open>The effective pause of a consumer, and the observer events that a change of it
  from \<open>before\<close> to \<open>after\<close> calls for.\<close>

definition effectivePaused :: "Consumer \<Rightarrow> bool" where
  "effectivePaused c \<longleftrightarrow> paused c \<or> producerPaused c"

definition transition_events :: "bool \<Rightarrow> bool \<Rightarrow> consumer_event list" where
  "transition_events before after =
     (if \<not> before \<and> after then [(''pause'', [])]
      else if before \<and> \<not> after then [(''resume'', [])]
      else [])"

text \<open>The request that an operation of consumer \<open>c\<close> writes: the method name, the
  scope tuple of the consumer and the body.\<close>

definition consumer_request :: "string \<Rightarrow> Consumer \<Rightarrow> reqdata \<Rightarrow> request" where
  "consumer_request m c d = \<lparr>rq_method = m, rq_internal = Some (c_internal c), rq_body = d\<rparr>"

text \<open>The requests written so far on the channel of a consumer or of a worker.\<close>

definition consumer_sent :: "Consumer \<Rightarrow> request list" where
  "consumer_sent c = ch_sent (c_channel c)"

definition worker_sent :: "Worker \<Rightarrow> request list" where
  "worker_sent w = ch_sent (w_channel w)"

definition default_score :: ConsumerScore where
  "default_score = \<lparr>Score = 10, ProducerScore = 10, ProducerScores = Some []\<rparr>"

subsection \<open>Concrete inputs\<close>

definition example_internal :: internalData where
  "example_internal =
     \<lparr>RouterId = ''r1'', TransportId = ''t1'', ProducerId = ''p1'', ConsumerId = ''c1'',
      DataProducerId = [], DataConsumerId = []\<rparr>"

definition example_params :: "ConsumerScore \<Rightarrow> consumerParams" where
  "example_params sc =
     \<lparr>p_internal = example_internal,
      p_data = \<lparr>cd_Kind = ''video'', cd_Type = ''simple'',
                cd_RtpParameters = \<lparr>Mid = ''0'', Encodings = []\<rparr>\<rparr>,
      p_channel = newChannel, p_payloadChannel = newPayloadChannel,
      p_appData = JNull, p_paused = False, p_producerPaused = False,
      p_score = sc, p_preferredLayers = zero_ConsumerLayers\<rparr>"

definition accepted :: workerResponse where
  "accepted = \<lparr>Data = [], Err = None\<rparr>"

definition example_decoders :: json_decoders where
  "example_decoders =
     \<lparr>dec_score = (\<lambda>d v. (v, None)), dec_layers = (\<lambda>d v. (v, None)),
      dec_trace = (\<lambda>d v. (v, None)), dec_priority = (\<lambda>d v. (1, None)),
      dec_stats = (\<lambda>d v. (Some [], None))\<rparr>"

definition closed_consumer :: Consumer where
  "closed_consumer = snd (Close accepted (newConsumer (example_params zero_ConsumerScore)))"

definition closed_consumer_closed_channel :: Consumer where
  "closed_consumer_closed_channel =
     closed_consumer\<lparr>c_channel := Channel_Close (c_channel closed_consumer)\<rparr>"

definition example_producer :: Producer where
  "example_producer =
     \<lparr>prod_Id = ''p1'', prod_Kind = ''video'',
      prod_ConsumableRtpParameters = \<lparr>Mid = ''0'', Encodings = [\<lparr>Ssrc = 11111, Rid = []\<rparr>]\<rparr>\<rparr>"

definition example_transport :: PipeTransport where
  "example_transport =
     newPipeTransport
       \<lparr>tp_internal = example_internal, tp_channel = newChannel,
        tp_payloadChannel = newPayloadChannel,
        tp_getProducerById = (\<lambda>i. if i = ''p1'' then Some example_producer else None)\<rparr>
       \<lparr>tuple = zero_TransportTuple, sctpParameters = JNull, sctpState = [], rtx = False,
        srtpParameters = JNull\<rparr>"

definition example_options :: "string \<Rightarrow> ConsumerOptions" where
  "example_options producerId =
     \<lparr>co_ProducerId = producerId, co_RtpCapabilities = zero_RtpCapabilities, co_Paused = False,
      co_PreferredLayers = zero_ConsumerLayers, co_AppData = JNull\<rparr>"

definition example_pipe_decoders :: pipe_decoders where
  "example_pipe_decoders =
     \<lparr>dec_tuple = (\<lambda>d v. (v, None)), dec_status = (\<lambda>d v. (v, None)),
      dec_sctpState = (\<lambda>d v. (v, None)), dec_transport_trace = (\<lambda>d v. (v, None))\<rparr>"

definition example_worker :: Worker where
  "example_worker =
     \<lparr>w_emitted = [], child = Some 4242, pid = 4242,
      w_channel = Channel_On (Itoa 4242) newChannel,
      w_payloadChannel = newPayloadChannel,
      w_closed = False, w_appData = JObject [], routers = [],
      w_observer = [], spawnDone = False, w_calls = []\<rparr>"

definition exit_42 :: wait_result where
  "exit_42 = ExitError (Some \<lparr>ExitStatus = 42, Signaled = False, Signal = [], Stopped = False,
                               StopSignal = []\<rparr>)"

definition worker_with_router :: Worker where
  "worker_with_router =
     snd (CreateRouter ''r1'' (\<lambda>codecs. Inr zero_RtpCapabilities) accepted
            \<lparr>MediaCodecs = [], ro_AppData = JNull\<rparr> example_worker)"

subsection \<open>Memories after a write through a returned capabilities value\<close>

definition changed_memory :: memory where
  "changed_memory =
     init_memory\<lparr>codec_arrays := (codec_arrays init_memory)
        (0 := Some (supported_codecs[0 := (supported_codecs ! 0)\<lparr>MimeType := ''audio/changed''\<rparr>]))\<rparr>"

definition changed_parameter_memory :: memory where
  "changed_parameter_memory =
     init_memory\<lparr>parameter_cells := (parameter_cells init_memory)
        (0 := Some ((h264_parameter 1)\<lparr>PacketizationMode := 7\<rparr>))\<rparr>"

definition changed_feedback_memory :: memory where
  "changed_feedback_memory =
     init_memory\<lparr>feedback_arrays := (feedback_arrays init_memory)
        (0 := Some (video_feedback[0 := (video_feedback ! 0)\<lparr>fb_Type := ''changed''\<rparr>]))\<rparr>"

text \<open>What the table says about its first codec, about the packetization mode of its
  first H264 entry (index 20) and about the first feedback of VP8 (index 18).\<close>

definition first_mime :: "memory \<Rightarrow> RtpCapabilities \<Rightarrow> string option" where
  "first_mime m caps = map_option (\<lambda>cs. MimeType (v_codec (hd cs))) (read_codecs m caps)"

definition h264_mode :: "memory \<Rightarrow> RtpCapabilities \<Rightarrow> int option" where
  "h264_mode m caps =
     (case read_codecs m caps of
        None \<Rightarrow> None
      | Some cs \<Rightarrow> map_option PacketizationMode (v_parameters (cs ! 20)))"

definition vp8_first_feedback :: "memory \<Rightarrow> RtpCapabilities \<Rightarrow> string option" where
  "vp8_first_feedback m caps =
     (case read_codecs m caps of
        None \<Rightarrow> None
      | Some cs \<Rightarrow> Some (fb_Type (hd (v_feedback (cs ! 18)))))"

subsection \<open>Lifetimes: sequences of calls on one object\<close>

text \<open>The number of \<^verbatim>\<open>close\<close> events in the log of an observer.\<close>

definition close_count :: "(string \<times> 'a) list \<Rightarrow> nat" where
  "close_count evs = length (filter (\<lambda>e. fst e = ''close'') evs)"

text \<open>Everything that can happen to a Consumer: a call of one of its methods (with the
  reply of the worker where the method sends a request) or a notification given to one
  of its two listeners.\<close>

datatype consumer_call =
    CallClose workerResponse
  | CallTransportClosed
  | CallDump workerResponse
  | CallGetStats workerResponse
  | CallPause workerResponse
  | CallResume workerResponse
  | CallSetPreferredLayers ConsumerLayers workerResponse
  | CallSetPriority "32 word" workerResponse
  | CallUnsetPriority workerResponse
  | CallRequestKeyFrame workerResponse
  | CallEnableTraceEvent "string list" workerResponse
  | ChannelNotification string bytes
  | PayloadNotification string bytes bytes

fun consumer_step :: "json_decoders \<Rightarrow> consumer_call \<Rightarrow> Consumer \<Rightarrow> Consumer" where
  "consumer_step J (CallClose r) c = snd (Close r c)"
| "consumer_step J CallTransportClosed c = transportClosed c"
| "consumer_step J (CallDump r) c = snd (Dump r c)"
| "consumer_step J (CallGetStats r) c = snd (GetStats J r c)"
| "consumer_step J (CallPause r) c = snd (Pause r c)"
| "consumer_step J (CallResume r) c = snd (Resume r c)"
| "consumer_step J (CallSetPreferredLayers l r) c = snd (SetPreferredLayers J l r c)"
| "consumer_step J (CallSetPriority p r) c = snd (SetPriority J p r c)"
| "consumer_step J (CallUnsetPriority r) c = snd (UnsetPriority J r c)"
| "consumer_step J (CallRequestKeyFrame r) c = snd (RequestKeyFrame r c)"
| "consumer_step J (CallEnableTraceEvent ts r) c = snd (EnableTraceEvent ts r c)"
| "consumer_step J (ChannelNotification ev d) c = on_channel_notification J ev d c"
| "consumer_step J (PayloadNotification ev d p) c = on_payload_notification ev d p c"

definition consumer_run :: "json_decoders \<Rightarrow> consumer_call list \<Rightarrow> Consumer \<Rightarrow> Consumer" where
  "consumer_run J calls c = foldl (\<lambda>c call. consumer_step J call c) c calls"

definition consumer_inv :: "Consumer \<Rightarrow> bool" where
  "consumer_inv c \<longleftrightarrow> close_count (observer c) = (if Closed c then 1 else 0)"

text \<open>Everything that can happen to a Worker: its methods, the notification listener and
  the goroutine of \<^verbatim>\<open>NewWorker\<close>, the handler of a router's \<^verbatim>\<open>@close\<close>, and the method
  \<^verbatim>\<open>wait\<close>.\<close>

datatype worker_call =
    WClose
  | WDump workerResponse
  | WGetResourceUsage "bytes \<Rightarrow> WorkerResourceUsage \<Rightarrow> WorkerResourceUsage \<times> error option" workerResponse
  | WUpdateSettings WorkerUpdateableSettings workerResponse
  | WCreateRouter string "RtpCodecCapability list \<Rightarrow> error + RtpCapabilities" workerResponse RouterOptions
  | WNotification string
  | WChildExit wait_result
  | WRouterClosed string
  | WWait wait_result

fun worker_step :: "worker_call \<Rightarrow> Worker \<Rightarrow> Worker" where
  "worker_step WClose w = Worker_Close w"
| "worker_step (WDump r) w = snd (Worker_Dump r w)"
| "worker_step (WGetResourceUsage dec r) w = snd (GetResourceUsage dec r w)"
| "worker_step (WUpdateSettings s r) w = snd (UpdateSettings s r w)"
| "worker_step (WCreateRouter uuid gen r opts) w = snd (CreateRouter uuid gen r opts w)"
| "worker_step (WNotification ev) w = NewWorker_on_notification ev w"
| "worker_step (WChildExit err) w = NewWorker_on_child_exit err w"
| "worker_step (WRouterClosed routerId) w = CreateRouter_on_router_close routerId w"
| "worker_step (WWait err) w = wait err w"

definition worker_run :: "worker_call list \<Rightarrow> Worker \<Rightarrow> Worker" where
  "worker_run calls w = foldl (\<lambda>w call. worker_step call w) w calls"

definition worker_inv :: "Worker \<Rightarrow> bool" where
  "worker_inv w \<longleftrightarrow>
     close_count (w_observer w) = (if w_closed w then 1 else 0) \<and>
     (w_closed w \<longrightarrow> ch_closed (w_channel w))"

text \<open>Everything that can happen to a PipeTransport.\<close>

datatype pipe_call =
    PClose
  | PRouterClosed
  | PConnect TransportConnectOptions workerResponse
  | PConsume string "RtpParameters \<Rightarrow> bool \<Rightarrow> RtpParameters" ConsumerOptions workerResponse
  | PNotification string bytes
  | PConsumerClosed string

fun pipe_step :: "pipe_decoders \<Rightarrow> pipe_call \<Rightarrow> PipeTransport \<Rightarrow> PipeTransport" where
  "pipe_step J PClose t = PipeTransport_Close t"
| "pipe_step J PRouterClosed t = PipeTransport_routerClosed t"
| "pipe_step J (PConnect opts r) t = snd (Connect J opts r t)"
| "pipe_step J (PConsume uuid f opts r) t = snd (Consume J uuid f opts r t)"
| "pipe_step J (PNotification ev d) t = PipeTransport_on_notification J ev d t"
| "pipe_step J (PConsumerClosed consumerId) t = Consume_on_consumer_close consumerId t"

definition pipe_run :: "pipe_decoders \<Rightarrow> pipe_call list \<Rightarrow> PipeTransport \<Rightarrow> PipeTransport" where
  "pipe_run J calls t = foldl (\<lambda>t call. pipe_step J call t) t calls"

definition pipe_inv :: "PipeTransport \<Rightarrow> bool" where
  "pipe_inv t \<longleftrightarrow>
     close_count (t_observer (ITransport t)) = (if PipeTransport_Closed t then 1 else 0)"



section \<open>Properties of the Consumer\<close>

lemma Closed_iff: "Closed c \<longleftrightarrow> closed c \<noteq> 0"
  by (simp add: Closed_def word_greater_zero_iff)

lemma score_newConsumer:
  "score (newConsumer params) =
     (if p_score params = zero_ConsumerScore then default_score else p_score params)"
  by (simp add: newConsumer_def Let_def handleWorkerNotifications_register_def
      DeepEqual_score_def zero_ConsumerScore_def default_score_def ConsumerScore.equality)

lemma closed_newConsumer: "closed (newConsumer params) = 0"
  by (simp add: newConsumer_def Let_def handleWorkerNotifications_register_def)

lemma observer_newConsumer: "observer (newConsumer params) = []"
  by (simp add: newConsumer_def Let_def handleWorkerNotifications_register_def)

lemma emitted_newConsumer: "emitted (newConsumer params) = []"
  by (simp add: newConsumer_def Let_def handleWorkerNotifications_register_def)

text \<open>
  C8. A consumer made from parameters whose score is the zero value of
  \<^verbatim>\<open>ConsumerScore\<close> reports the score \<open>{10, 10, []}\<close>; made from any other score, it
  reports that score unchanged. (The zero value has a nil \<^verbatim>\<open>ProducerScores\<close>; a score
  of zeros with an empty, non-nil slice is not the zero value and is kept.)
\<close>

theorem newConsumer_score:
  "(p_score params = zero_ConsumerScore \<longrightarrow>
      Consumer_Score (newConsumer params) =
        \<lparr>Score = 10, ProducerScore = 10, ProducerScores = Some []\<rparr>) \<and>
   (p_score params \<noteq> zero_ConsumerScore \<longrightarrow>
      Consumer_Score (newConsumer params) = p_score params)"
  by (simp add: Consumer_Score_def score_newConsumer default_score_def)

theorem newConsumer_score_witness:
  "Consumer_Score (newConsumer (example_params zero_ConsumerScore)) =
     \<lparr>Score = 10, ProducerScore = 10, ProducerScores = Some []\<rparr> \<and>
   Consumer_Score (newConsumer
       (example_params \<lparr>Score = 0, ProducerScore = 0, ProducerScores = Some []\<rparr>)) =
     \<lparr>Score = 0, ProducerScore = 0, ProducerScores = Some []\<rparr> \<and>
   Consumer_Score (newConsumer
       (example_params \<lparr>Score = 7, ProducerScore = 9, ProducerScores = Some [9, 3]\<rparr>)) =
     \<lparr>Score = 7, ProducerScore = 9, ProducerScores = Some [9, 3]\<rparr>"
  using newConsumer_score [of "example_params zero_ConsumerScore"]
    newConsumer_score
      [of "example_params \<lparr>Score = 0, ProducerScore = 0, ProducerScores = Some []\<rparr>"]
    newConsumer_score
      [of "example_params \<lparr>Score = 7, ProducerScore = 9, ProducerScores = Some [9, 3]\<rparr>"]
  by (simp add: example_params_def zero_ConsumerScore_def)

text \<open>
  C9. \<^verbatim>\<open>UnsetPriority()\<close> is \<^verbatim>\<open>SetPriority(1)\<close>: for every consumer, every decoder and
  every reply of the worker the two calls end in the same state with the same error;
  the request they write (when the channel is open) is \<^verbatim>\<open>consumer.setPriority\<close> with
  priority 1 and the consumer's scope tuple.
\<close>

theorem UnsetPriority_is_SetPriority_1:
  "UnsetPriority J reply c = SetPriority J 1 reply c \<and>
   ch_sent (c_channel (snd (UnsetPriority J reply c))) =
     (if ch_closed (c_channel c) then ch_sent (c_channel c)
      else ch_sent (c_channel c) @
             [\<lparr>rq_method = ''consumer.setPriority'', rq_internal = Some (c_internal c),
               rq_body = PriorityData 1\<rparr>]) \<and>
   priority (snd (UnsetPriority J reply c)) = priority (snd (SetPriority J 1 reply c)) \<and>
   fst (UnsetPriority J reply c) = fst (SetPriority J 1 reply c)"
  by (simp add: UnsetPriority_def SetPriority_def Request_def Unmarshal_def Let_def
      split: prod.splits option.splits)

text \<open>
  C10. On a closed consumer the listener of the payload channel emits nothing: an
  \<^verbatim>\<open>rtp\<close> notification leaves the consumer as it is, and no event at all changes the
  log of the consumer or of its observer.
\<close>

theorem rtp_after_close_not_emitted:
  "Closed c \<Longrightarrow>
     on_payload_notification ''rtp'' data payload c = c \<and>
     emitted (on_payload_notification event data payload c) = emitted c \<and>
     observer (on_payload_notification event data payload c) = observer c"
  by (simp add: on_payload_notification_def)

theorem rtp_after_close_not_emitted_witness:
  "Closed (snd (Close accepted (newConsumer (example_params zero_ConsumerScore)))) \<and>
   emitted (on_payload_notification ''rtp'' [] [1, 2, 3]
      (snd (Close accepted (newConsumer (example_params zero_ConsumerScore))))) =
     [(''@close'', [])]"
proof -
  have cl: "Closed (snd (Close accepted (newConsumer (example_params zero_ConsumerScore))))"
    by (simp add: Close_def CompareAndSwap01_def closed_newConsumer Closed_iff Let_def
        Emit_def observer_SafeEmit_def)
  have "emitted (snd (Close accepted (newConsumer (example_params zero_ConsumerScore)))) =
          [(''@close'', [])]"
    by (simp add: Close_def CompareAndSwap01_def closed_newConsumer emitted_newConsumer Let_def
        Emit_def observer_SafeEmit_def)
  with cl rtp_after_close_not_emitted [OF cl, of "[]" "[1, 2, 3]" "''rtp''"]
  show ?thesis by simp
qed

lemma Pause_observer:
  "observer (snd (Pause reply c)) =
     observer c @ transition_events (effectivePaused c) (effectivePaused (snd (Pause reply c)))"
  by (auto simp: Pause_def Request_def Let_def effectivePaused_def transition_events_def
      observer_SafeEmit_def split: option.splits)

lemma Resume_observer:
  "observer (snd (Resume reply c)) =
     observer c @ transition_events (effectivePaused c) (effectivePaused (snd (Resume reply c)))"
  by (auto simp: Resume_def Request_def Let_def effectivePaused_def transition_events_def
      observer_SafeEmit_def split: option.splits)

lemma producerpause_observer:
  "observer (on_channel_notification J ''producerpause'' data c) =
     observer c @ transition_events (effectivePaused c)
       (effectivePaused (on_channel_notification J ''producerpause'' data c))"
  by (auto simp: on_channel_notification_def Let_def effectivePaused_def transition_events_def
      observer_SafeEmit_def Emit_def)

lemma producerresume_observer:
  "observer (on_channel_notification J ''producerresume'' data c) =
     observer c @ transition_events (effectivePaused c)
       (effectivePaused (on_channel_notification J ''producerresume'' data c))"
  by (auto simp: on_channel_notification_def Let_def effectivePaused_def transition_events_def
      observer_SafeEmit_def Emit_def)

text \<open>
  C3. With the effective pause \<open>paused \<or> producerPaused\<close>: each of \<^verbatim>\<open>Pause()\<close>,
  \<^verbatim>\<open>Resume()\<close> and the handlers of \<^verbatim>\<open>producerpause\<close> and \<^verbatim>\<open>producerresume\<close> adds to
  the observer exactly \<^verbatim>\<open>pause\<close> when the effective pause goes from false to true,
  exactly \<^verbatim>\<open>resume\<close> when it goes from true to false, and nothing when it stays.
\<close>

theorem observer_pause_resume_on_transitions:
  "observer (snd (Pause reply c)) =
     observer c @ transition_events (effectivePaused c) (effectivePaused (snd (Pause reply c))) \<and>
   observer (snd (Resume reply c)) =
     observer c @ transition_events (effectivePaused c) (effectivePaused (snd (Resume reply c))) \<and>
   observer (on_channel_notification J ''producerpause'' data c) =
     observer c @ transition_events (effectivePaused c)
       (effectivePaused (on_channel_notification J ''producerpause'' data c)) \<and>
   observer (on_channel_notification J ''producerresume'' data c) =
     observer c @ transition_events (effectivePaused c)
       (effectivePaused (on_channel_notification J ''producerresume'' data c))"
  using Pause_observer Resume_observer producerpause_observer producerresume_observer
  by blast

lemma producerclose_closed:
  "Closed c \<Longrightarrow> on_channel_notification J ''producerclose'' data c = c"
  by (simp add: on_channel_notification_def CompareAndSwap01_def Closed_iff)

lemma Close_closed: "Closed c \<Longrightarrow> Close reply c = (None, c)"
  by (simp add: Close_def CompareAndSwap01_def Closed_iff)

lemma transportClosed_closed: "Closed c \<Longrightarrow> transportClosed c = c"
  by (simp add: transportClosed_def CompareAndSwap01_def Closed_iff)

lemma producerclose_open:
  assumes "\<not> Closed c"
  shows "closed (on_channel_notification J ''producerclose'' data c) = 1"
    and "c_channel (on_channel_notification J ''producerclose'' data c) =
           Channel_RemoveAllListeners (ConsumerId (c_internal c)) (c_channel c)"
    and "emitted (on_channel_notification J ''producerclose'' data c) =
           emitted c @ [(''@producerclose'', []), (''producerclose'', [])]"
    and "observer (on_channel_notification J ''producerclose'' data c) =
           observer c @ [(''close'', [])]"
  using assms
  by (simp_all add: on_channel_notification_def CompareAndSwap01_def Closed_iff Let_def
      Emit_def observer_SafeEmit_def)

text \<open>
  C5. A \<^verbatim>\<open>producerclose\<close> notification on a consumer that is not closed closes it,
  removes the listeners of its id from the channel, emits \<^verbatim>\<open>@producerclose\<close> and then
  \<^verbatim>\<open>producerclose\<close> on the consumer and \<^verbatim>\<open>close\<close> on the observer; a second
  \<^verbatim>\<open>producerclose\<close> or a later \<^verbatim>\<open>Close()\<close> changes nothing, so emits none of them again.
\<close>

theorem producerclose_once:
  assumes "\<not> Closed c"
  shows "Closed (on_channel_notification J ''producerclose'' data c) \<and>
         ConsumerId (c_internal c) \<notin>
           set (ch_listeners (c_channel (on_channel_notification J ''producerclose'' data c))) \<and>
         emitted (on_channel_notification J ''producerclose'' data c) =
           emitted c @ [(''@producerclose'', []), (''producerclose'', [])] \<and>
         observer (on_channel_notification J ''producerclose'' data c) =
           observer c @ [(''close'', [])] \<and>
         on_channel_notification J ''producerclose'' data'
           (on_channel_notification J ''producerclose'' data c) =
           on_channel_notification J ''producerclose'' data c \<and>
         Close reply (on_channel_notification J ''producerclose'' data c) =
           (None, on_channel_notification J ''producerclose'' data c)"
proof -
  let ?c' = "on_channel_notification J ''producerclose'' data c"
  have cl: "Closed ?c'"
    using producerclose_open(1) [OF assms] by (simp add: Closed_iff)
  have "ConsumerId (c_internal c) \<notin> set (ch_listeners (c_channel ?c'))"
    using producerclose_open(2) [OF assms] by (simp add: Channel_RemoveAllListeners_def)
  then show ?thesis
    using cl producerclose_open(3,4) [OF assms] producerclose_closed [OF cl] Close_closed [OF cl]
    by simp
qed

theorem producerclose_once_witness:
  "\<not> Closed (newConsumer (example_params zero_ConsumerScore)) \<and>
   Closed (on_channel_notification example_decoders ''producerclose'' []
      (newConsumer (example_params zero_ConsumerScore))) \<and>
   emitted (on_channel_notification example_decoders ''producerclose'' []
      (newConsumer (example_params zero_ConsumerScore))) =
     [(''@producerclose'', []), (''producerclose'', [])] \<and>
   observer (on_channel_notification example_decoders ''producerclose'' []
      (newConsumer (example_params zero_ConsumerScore))) = [(''close'', [])]"
proof -
  have op: "\<not> Closed (newConsumer (example_params zero_ConsumerScore))"
    by (simp add: Closed_iff closed_newConsumer)
  show ?thesis
    using op producerclose_once [OF op, of example_decoders "[]" "[]" accepted]
    by (simp add: emitted_newConsumer observer_newConsumer)
qed

section \<open>Closing: idempotence and the closed flag\<close>

lemma close_count_append [simp]: "close_count (xs @ ys) = close_count xs + close_count ys"
  by (simp add: close_count_def)

lemma close_count_Nil [simp]: "close_count [] = 0"
  by (simp add: close_count_def)

lemma close_count_Cons [simp]:
  "close_count (e # es) = (if fst e = ''close'' then 1 else 0) + close_count es"
  by (simp add: close_count_def)

lemma Closed_after:
  "Closed (snd (Close reply c))" "Closed (transportClosed c)"
  by (auto simp: Close_def transportClosed_def CompareAndSwap01_def Closed_iff Let_def Emit_def
      observer_SafeEmit_def)

lemma newConsumer_inv: "consumer_inv (newConsumer params)"
  by (simp add: consumer_inv_def newConsumer_def Let_def handleWorkerNotifications_register_def Closed_iff)

lemma consumer_step_closed:
  "Closed c \<Longrightarrow> Closed (consumer_step J call c)"
  by (cases call)
    (auto simp: Closed_iff Close_def transportClosed_def Dump_def GetStats_def Pause_def
      Resume_def SetPreferredLayers_def SetPriority_def UnsetPriority_def RequestKeyFrame_def
      EnableTraceEvent_def on_channel_notification_def on_payload_notification_def
      CompareAndSwap01_def Let_def Emit_def observer_SafeEmit_def
      split: prod.splits option.splits)

lemma consumer_step_inv:
  "consumer_inv c \<Longrightarrow> consumer_inv (consumer_step J call c)"
  by (cases call)
    (auto simp: consumer_inv_def Closed_iff Close_def transportClosed_def Dump_def GetStats_def
      Pause_def Resume_def SetPreferredLayers_def SetPriority_def UnsetPriority_def
      RequestKeyFrame_def EnableTraceEvent_def on_channel_notification_def
      on_payload_notification_def CompareAndSwap01_def Let_def Emit_def observer_SafeEmit_def
      split: prod.splits option.splits)

lemma consumer_run_inv:
  "consumer_inv c \<Longrightarrow> consumer_inv (consumer_run J calls c)"
  unfolding consumer_run_def
  by (induction calls arbitrary: c) (simp_all add: consumer_step_inv)

lemma consumer_run_closed:
  "Closed c \<Longrightarrow> Closed (consumer_run J calls c)"
  unfolding consumer_run_def
  by (induction calls arbitrary: c) (simp_all add: consumer_step_closed)

lemma Request_ch_closed [simp]: "ch_closed (snd (Request m i d r ch)) = ch_closed ch"
  by (simp add: Request_def)

lemma Worker_Close_fields:
  "w_closed (Worker_Close w)"
  "ch_closed (w_channel (Worker_Close w)) = (ch_closed (w_channel w) \<or> \<not> w_closed w)"
  "w_observer (Worker_Close w) = (if w_closed w then w_observer w else w_observer w @ [(''close'', [])])"
  "spawnDone (Worker_Close w) = spawnDone w"
  "w_emitted (Worker_Close w) = w_emitted w"
  "pid (Worker_Close w) = pid w"
  by (simp_all add: Worker_Close_def Let_def Channel_Close_def split: option.splits)

lemma Worker_Close_closed: "w_closed w \<Longrightarrow> Worker_Close w = w"
  by (simp add: Worker_Close_def)

lemma wait_fields:
  "w_closed (wait err w)"
  "ch_closed (w_channel (wait err w)) = (ch_closed (w_channel w) \<or> \<not> w_closed w)"
  "w_observer (wait err w) = (if w_closed w then w_observer w else w_observer w @ [(''close'', [])])"
  by (simp_all add: wait_def Let_def Worker_Close_fields Worker_Close_def Channel_Close_def split: prod.splits option.splits wait_result.splits)

lemma worker_step_closed:
  "w_closed w \<Longrightarrow> w_closed (worker_step call w)"
  by (cases call)
    (auto simp: Worker_Close_fields wait_fields Worker_Dump_def GetResourceUsage_def
      UpdateSettings_def CreateRouter_def NewWorker_on_notification_def
      NewWorker_on_child_exit_def CreateRouter_on_router_close_def Let_def
      split: prod.splits option.splits sum.splits)

lemma worker_step_inv:
  "worker_inv w \<Longrightarrow> worker_inv (worker_step call w)"
  by (cases call)
    (auto simp: worker_inv_def Worker_Close_fields wait_fields Worker_Dump_def GetResourceUsage_def
      UpdateSettings_def CreateRouter_def NewWorker_on_notification_def
      NewWorker_on_child_exit_def CreateRouter_on_router_close_def Let_def split_beta
      split: option.splits sum.splits)

lemma worker_run_inv: "worker_inv w \<Longrightarrow> worker_inv (worker_run calls w)"
  unfolding worker_run_def
  by (induction calls arbitrary: w) (simp_all add: worker_step_inv)

lemma NewWorker_inv: "NewWorker options spawn = Inr w \<Longrightarrow> worker_inv w"
  by (auto simp: NewWorker_def worker_inv_def Let_def split: sum.splits)

lemma NewWorker_example: "NewWorker [] (Inr 4242) = Inr example_worker"
  by (simp add: NewWorker_def example_worker_def default_settings_def)

lemma PipeTransport_Close_closed: "PipeTransport_Closed t \<Longrightarrow> PipeTransport_Close t = t"
  by (simp add: PipeTransport_Close_def)

lemma PipeTransport_routerClosed_closed:
  "PipeTransport_Closed t \<Longrightarrow> PipeTransport_routerClosed t = t"
  by (simp add: PipeTransport_routerClosed_def)

lemma PipeTransport_Closed_after:
  "PipeTransport_Closed (PipeTransport_Close t)"
  "PipeTransport_Closed (PipeTransport_routerClosed t)"
  by (simp_all add: PipeTransport_Close_def PipeTransport_routerClosed_def
      PipeTransport_Closed_def Transport_Closed_def Transport_Close_def
      Transport_routerClosed_def Let_def)

lemma pipe_step_closed:
  "PipeTransport_Closed t \<Longrightarrow> PipeTransport_Closed (pipe_step J call t)"
  by (cases call)
    (auto simp: PipeTransport_Close_closed PipeTransport_routerClosed_closed
      PipeTransport_Closed_def Transport_Closed_def Connect_def Consume_def
      PipeTransport_on_notification_def Consume_on_consumer_close_def Let_def split_beta
      split: option.splits)

lemma pipe_step_inv:
  "pipe_inv t \<Longrightarrow> pipe_inv (pipe_step J call t)"
  by (cases call)
    (auto simp: pipe_inv_def PipeTransport_Close_def PipeTransport_routerClosed_def
      Transport_Close_def Transport_routerClosed_def
      PipeTransport_Closed_def Transport_Closed_def Connect_def Consume_def
      PipeTransport_on_notification_def Consume_on_consumer_close_def Let_def split_beta
      split: option.splits)

lemma pipe_run_inv: "pipe_inv t \<Longrightarrow> pipe_inv (pipe_run J calls t)"
  unfolding pipe_run_def
  by (induction calls arbitrary: t) (simp_all add: pipe_step_inv)

lemma newPipeTransport_inv: "pipe_inv (newPipeTransport params data)"
  by (simp add: pipe_inv_def newPipeTransport_def newTransport_def PipeTransport_Closed_def
      Transport_Closed_def)

lemma inv_le_1:
  "consumer_inv c \<Longrightarrow> close_count (observer c) \<le> 1"
  "worker_inv w \<Longrightarrow> close_count (w_observer w) \<le> 1"
  "pipe_inv t \<Longrightarrow> close_count (t_observer (ITransport t)) \<le> 1"
  by (auto simp: consumer_inv_def worker_inv_def pipe_inv_def split: if_splits)

lemma closed_consumer_Closed: "Closed closed_consumer"
  by (simp add: closed_consumer_def Closed_after)

lemma closed_consumer_channel_open: "\<not> ch_closed (c_channel closed_consumer)"
  by (simp add: closed_consumer_def Close_def CompareAndSwap01_def closed_newConsumer Let_def
      Emit_def observer_SafeEmit_def Request_def Channel_RemoveAllListeners_def
      newConsumer_def handleWorkerNotifications_register_def Channel_On_def example_params_def
      newChannel_def)

text \<open>
  C4. Closing is idempotent and the closed flag only goes up, for Consumer, Worker and
  PipeTransport. After \<^verbatim>\<open>Close()\<close> (for a consumer also \<^verbatim>\<open>transportClosed()\<close>, for a
  pipe transport also \<^verbatim>\<open>routerClosed()\<close>) the object is closed; on a closed object each
  of these calls returns the object unchanged, so it has no effect and emits nothing; no
  call and no notification takes a closed object back to open; and over any sequence of
  calls and notifications from the constructor on, the observer gets \<^verbatim>\<open>close\<close> at most
  once. (Calls are taken one after the other. The base transport behind \<^verbatim>\<open>ITransport\<close>
  is the one described in the section on the pipe transport.)
\<close>

theorem close_idempotent_closed_monotonic:
  "(Closed (snd (Close reply c)) \<and> Closed (transportClosed c) \<and>
    (Closed c \<longrightarrow> Close reply c = (None, c) \<and> transportClosed c = c \<and>
                   Closed (consumer_step J call c)) \<and>
    close_count (observer (consumer_run J calls (newConsumer params))) \<le> 1) \<and>
   (Worker_Closed (Worker_Close w) \<and>
    (Worker_Closed w \<longrightarrow> Worker_Close w = w \<and> Worker_Closed (worker_step wcall w)) \<and>
    (NewWorker options spawn = Inr w0 \<longrightarrow>
       close_count (w_observer (worker_run wcalls w0)) \<le> 1)) \<and>
   (PipeTransport_Closed (PipeTransport_Close t) \<and>
    PipeTransport_Closed (PipeTransport_routerClosed t) \<and>
    (PipeTransport_Closed t \<longrightarrow>
       PipeTransport_Close t = t \<and> PipeTransport_routerClosed t = t \<and>
       PipeTransport_Closed (pipe_step JP pcall t)) \<and>
    close_count (t_observer (ITransport
       (pipe_run JP pcalls (newPipeTransport tparams tdata)))) \<le> 1)"
proof -
  have consumer: "Closed (snd (Close reply c)) \<and> Closed (transportClosed c) \<and>
    (Closed c \<longrightarrow> Close reply c = (None, c) \<and> transportClosed c = c \<and>
                   Closed (consumer_step J call c)) \<and>
    close_count (observer (consumer_run J calls (newConsumer params))) \<le> 1"
    using Closed_after Close_closed transportClosed_closed consumer_step_closed
      inv_le_1(1) [OF consumer_run_inv [OF newConsumer_inv]]
    by blast
  have worker: "Worker_Closed (Worker_Close w) \<and>
    (Worker_Closed w \<longrightarrow> Worker_Close w = w \<and> Worker_Closed (worker_step wcall w)) \<and>
    (NewWorker options spawn = Inr w0 \<longrightarrow>
       close_count (w_observer (worker_run wcalls w0)) \<le> 1)"
    using Worker_Close_fields(1) Worker_Close_closed worker_step_closed
      inv_le_1(2) [OF worker_run_inv [OF NewWorker_inv]]
    unfolding Worker_Closed_def by blast
  have pipe: "PipeTransport_Closed (PipeTransport_Close t) \<and>
    PipeTransport_Closed (PipeTransport_routerClosed t) \<and>
    (PipeTransport_Closed t \<longrightarrow>
       PipeTransport_Close t = t \<and> PipeTransport_routerClosed t = t \<and>
       PipeTransport_Closed (pipe_step JP pcall t)) \<and>
    close_count (t_observer (ITransport
       (pipe_run JP pcalls (newPipeTransport tparams tdata)))) \<le> 1"
    using PipeTransport_Closed_after PipeTransport_Close_closed
      PipeTransport_routerClosed_closed pipe_step_closed
      inv_le_1(3) [OF pipe_run_inv [OF newPipeTransport_inv]]
    by blast
  from consumer worker pipe show ?thesis by blast
qed

theorem close_idempotent_closed_monotonic_witness:
  "Closed closed_consumer \<and>
   Close accepted closed_consumer = (None, closed_consumer) \<and>
   transportClosed closed_consumer = closed_consumer \<and>
   Closed (consumer_step example_decoders (CallPause accepted) closed_consumer) \<and>
   Worker_Closed (Worker_Close example_worker) \<and>
   Worker_Close (Worker_Close example_worker) = Worker_Close example_worker \<and>
   NewWorker [] (Inr 4242) = Inr example_worker \<and>
   close_count (w_observer (worker_run [WClose, WWait exit_42, WClose] example_worker)) \<le> 1 \<and>
   PipeTransport_Closed (PipeTransport_Close example_transport) \<and>
   PipeTransport_Close (PipeTransport_Close example_transport) =
     PipeTransport_Close example_transport \<and>
   PipeTransport_routerClosed (PipeTransport_Close example_transport) =
     PipeTransport_Close example_transport"
  using closed_consumer_Closed NewWorker_example
    close_idempotent_closed_monotonic
      [where c = closed_consumer and reply = accepted and J = example_decoders
         and call = "CallPause accepted" and w = example_worker and t = example_transport]
    close_idempotent_closed_monotonic
      [where c = closed_consumer and w = "Worker_Close example_worker"
         and t = "PipeTransport_Close example_transport" and options = "[]"
         and spawn = "Inr 4242" and ?w0.0 = example_worker
         and wcalls = "[WClose, WWait exit_42, WClose]"]
  by simp

section \<open>Operations on closed objects\<close>

lemma Request_closed:
  "ch_closed ch \<Longrightarrow> Request m i d reply ch =
     (\<lparr>Data = [], Err = Some (InvalidStateError ''channel closed'')\<rparr>, ch)"
  by (simp add: Request_def)

lemma Request_open:
  "\<not> ch_closed ch \<Longrightarrow> fst (Request m i d reply ch) = reply"
  by (simp add: Request_def)

lemma consumer_ops_channel_closed:
  assumes "ch_closed (c_channel c)"
  shows "isInvalidStateError (fst (Pause reply c))"
    and "isInvalidStateError (fst (Resume reply c))"
    and "isInvalidStateError (dump_Err (fst (Dump reply c)))"
    and "isInvalidStateError (snd (fst (GetStats J reply c)))"
    and "isInvalidStateError (fst (SetPreferredLayers J layers reply c))"
    and "isInvalidStateError (fst (SetPriority J prio reply c))"
    and "isInvalidStateError (fst (RequestKeyFrame reply c))"
    and "isInvalidStateError (fst (EnableTraceEvent types reply c))"
  using assms
  by (simp_all add: Pause_def Resume_def Dump_def GetStats_def SetPreferredLayers_def
      SetPriority_def RequestKeyFrame_def EnableTraceEvent_def Request_closed Unmarshal_def
      NewDumpResult_def Let_def)

lemma consumer_ops_channel_open:
  assumes "\<not> ch_closed (c_channel c)"
  shows "fst (Pause reply c) = Err reply"
    and "fst (Resume reply c) = Err reply"
    and "dump_Err (fst (Dump reply c)) = Err reply"
    and "snd (fst (GetStats J reply c)) = snd (Unmarshal (dec_stats J) reply None)"
    and "fst (SetPreferredLayers J layers reply c) =
           snd (Unmarshal (dec_layers J) reply (preferredLayers c))"
    and "fst (SetPriority J prio reply c) = snd (Unmarshal (dec_priority J) reply 0)"
    and "fst (RequestKeyFrame reply c) = Err reply"
    and "fst (EnableTraceEvent types reply c) = Err reply"
  using assms
  by (simp_all add: Pause_def Resume_def Dump_def GetStats_def SetPreferredLayers_def
      SetPriority_def RequestKeyFrame_def EnableTraceEvent_def Request_def
      NewDumpResult_def Let_def split_beta split: option.splits)

lemma consumer_ops_channel_open_sent:
  assumes "\<not> ch_closed (c_channel c)"
  shows "consumer_sent (snd (Pause reply c)) =
           consumer_sent c @ [consumer_request ''consumer.pause'' c NoData]"
    and "consumer_sent (snd (Resume reply c)) =
           consumer_sent c @ [consumer_request ''consumer.resume'' c NoData]"
    and "consumer_sent (snd (Dump reply c)) =
           consumer_sent c @ [consumer_request ''consumer.dump'' c NoData]"
    and "consumer_sent (snd (GetStats J reply c)) =
           consumer_sent c @ [consumer_request ''consumer.getStats'' c NoData]"
    and "consumer_sent (snd (SetPreferredLayers J layers reply c)) =
           consumer_sent c @
             [consumer_request ''consumer.setPreferredLayers'' c (LayersData layers)]"
    and "consumer_sent (snd (SetPriority J prio reply c)) =
           consumer_sent c @ [consumer_request ''consumer.setPriority'' c (PriorityData prio)]"
    and "consumer_sent (snd (RequestKeyFrame reply c)) =
           consumer_sent c @ [consumer_request ''consumer.requestKeyFrame'' c NoData]"
    and "consumer_sent (snd (EnableTraceEvent types reply c)) =
           consumer_sent c @ [consumer_request ''consumer.enableTraceEvent'' c (TypesData types)]"
  using assms
  by (simp_all add: Pause_def Resume_def Dump_def GetStats_def SetPreferredLayers_def
      SetPriority_def RequestKeyFrame_def EnableTraceEvent_def Request_def consumer_sent_def
      consumer_request_def observer_SafeEmit_def Let_def split_beta split: option.splits)

lemma consumer_ops_channel_closed_sent:
  assumes "ch_closed (c_channel c)"
  shows "consumer_sent (snd (Pause reply c)) = consumer_sent c"
    and "consumer_sent (snd (Resume reply c)) = consumer_sent c"
    and "consumer_sent (snd (Dump reply c)) = consumer_sent c"
    and "consumer_sent (snd (GetStats J reply c)) = consumer_sent c"
    and "consumer_sent (snd (SetPreferredLayers J layers reply c)) = consumer_sent c"
    and "consumer_sent (snd (SetPriority J prio reply c)) = consumer_sent c"
    and "consumer_sent (snd (RequestKeyFrame reply c)) = consumer_sent c"
    and "consumer_sent (snd (EnableTraceEvent types reply c)) = consumer_sent c"
  using assms
  by (simp_all add: Pause_def Resume_def Dump_def GetStats_def SetPreferredLayers_def
      SetPriority_def RequestKeyFrame_def EnableTraceEvent_def Request_closed Unmarshal_def
      consumer_sent_def Let_def)

lemma worker_ops_channel_closed_sent:
  assumes "ch_closed (w_channel w)"
  shows "worker_sent (snd (Worker_Dump reply w)) = worker_sent w"
    and "worker_sent (snd (GetResourceUsage dec reply w)) = worker_sent w"
    and "worker_sent (snd (UpdateSettings settings reply w)) = worker_sent w"
    and "worker_sent (snd (CreateRouter uuid gen reply opts w)) = worker_sent w"
  using assms
  by (simp_all add: Worker_Dump_def GetResourceUsage_def UpdateSettings_def CreateRouter_def
      Request_closed Unmarshal_def worker_sent_def Let_def)

lemma worker_ops_channel_closed:
  assumes "ch_closed (w_channel w)"
  shows "isInvalidStateError (snd (fst (Worker_Dump reply w)))"
    and "isInvalidStateError (snd (fst (GetResourceUsage dec reply w)))"
    and "isInvalidStateError (fst (UpdateSettings settings reply w))"
    and "fst (CreateRouter uuid gen reply opts w) = Inl (InvalidStateError ''channel closed'')"
  using assms
  by (simp_all add: Worker_Dump_def GetResourceUsage_def UpdateSettings_def CreateRouter_def
      Request_closed Unmarshal_def Let_def)

lemma reachable_closed_worker:
  assumes "NewWorker options spawn = Inr w0" and "Worker_Closed (worker_run calls w0)"
  shows "ch_closed (w_channel (worker_run calls w0))"
  using worker_run_inv [OF NewWorker_inv [OF assms(1)], of calls] assms(2)
  by (simp add: worker_inv_def Worker_Closed_def)

text \<open>
  C1, as the code has it. No operation of a Consumer or of a Worker reads the closed
  flag of the object; what an operation returns is what the channel gives to its request.
  A closed consumer whose channel is open gets the reply of the worker: with an accepted
  reply \<^verbatim>\<open>Pause()\<close> returns no error, sets \<^verbatim>\<open>paused\<close> and tells the observer
  \<^verbatim>\<open>pause\<close>; with a worker error it returns that error, whatever its kind.
\<close>

theorem closed_consumer_Pause_succeeds:
  "Closed closed_consumer \<and>
   fst (Pause accepted closed_consumer) = None \<and>
   \<not> isInvalidStateError (fst (Pause accepted closed_consumer)) \<and>
   paused (snd (Pause accepted closed_consumer)) \<and>
   observer (snd (Pause accepted closed_consumer)) = [(''close'', []), (''pause'', [])] \<and>
   fst (Pause \<lparr>Data = [], Err = Some (GoError ''Consumer not found'')\<rparr> closed_consumer) =
     Some (GoError ''Consumer not found'')"
proof -
  have obs: "observer closed_consumer = [(''close'', [])]"
    by (simp add: closed_consumer_def Close_def CompareAndSwap01_def closed_newConsumer Let_def
        Emit_def observer_SafeEmit_def observer_newConsumer)
  have np: "\<not> paused closed_consumer" "\<not> producerPaused closed_consumer"
    by (simp_all add: closed_consumer_def Close_def CompareAndSwap01_def closed_newConsumer Let_def
        Emit_def observer_SafeEmit_def newConsumer_def handleWorkerNotifications_register_def
        example_params_def)
  show ?thesis
    using closed_consumer_Closed closed_consumer_channel_open obs np
    by (simp add: Pause_def Request_def Let_def accepted_def observer_SafeEmit_def)
qed

text \<open>
  C1, amended. For every closed Consumer: if its channel is closed, each of \<^verbatim>\<open>Pause\<close>,
  \<^verbatim>\<open>Resume\<close>, \<^verbatim>\<open>Dump\<close>, \<^verbatim>\<open>GetStats\<close>, \<^verbatim>\<open>SetPreferredLayers\<close>, \<^verbatim>\<open>SetPriority\<close>,
  \<^verbatim>\<open>RequestKeyFrame\<close> and \<^verbatim>\<open>EnableTraceEvent\<close> fails with \<open>InvalidStateError\<close> and
  writes no request; if its channel is open, each writes exactly one request (its own
  method name, the scope tuple of the consumer and its body) after those already written
  and returns the error of the worker's reply (for the three that decode the reply, the
  error of the reply or else of the decoder). For every Worker made by \<^verbatim>\<open>NewWorker\<close>
  that is closed after any sequence of calls, \<^verbatim>\<open>Dump\<close>, \<^verbatim>\<open>GetResourceUsage\<close>,
  \<^verbatim>\<open>UpdateSettings\<close> and \<^verbatim>\<open>CreateRouter\<close> fail with \<open>InvalidStateError\<close> and write no
  request, because \<^verbatim>\<open>Close()\<close> closed its channel.
\<close>

theorem closed_operations_follow_the_channel:
  "(Closed c \<and> ch_closed (c_channel c) \<longrightarrow>
      isInvalidStateError (fst (Pause reply c)) \<and>
      isInvalidStateError (fst (Resume reply c)) \<and>
      isInvalidStateError (dump_Err (fst (Dump reply c))) \<and>
      isInvalidStateError (snd (fst (GetStats J reply c))) \<and>
      isInvalidStateError (fst (SetPreferredLayers J layers reply c)) \<and>
      isInvalidStateError (fst (SetPriority J prio reply c)) \<and>
      isInvalidStateError (fst (RequestKeyFrame reply c)) \<and>
      isInvalidStateError (fst (EnableTraceEvent types reply c)) \<and>
      consumer_sent (snd (Pause reply c)) = consumer_sent c \<and>
      consumer_sent (snd (Resume reply c)) = consumer_sent c \<and>
      consumer_sent (snd (Dump reply c)) = consumer_sent c \<and>
      consumer_sent (snd (GetStats J reply c)) = consumer_sent c \<and>
      consumer_sent (snd (SetPreferredLayers J layers reply c)) = consumer_sent c \<and>
      consumer_sent (snd (SetPriority J prio reply c)) = consumer_sent c \<and>
      consumer_sent (snd (RequestKeyFrame reply c)) = consumer_sent c \<and>
      consumer_sent (snd (EnableTraceEvent types reply c)) = consumer_sent c) \<and>
   (Closed c \<and> \<not> ch_closed (c_channel c) \<longrightarrow>
      fst (Pause reply c) = Err reply \<and>
      fst (Resume reply c) = Err reply \<and>
      dump_Err (fst (Dump reply c)) = Err reply \<and>
      snd (fst (GetStats J reply c)) = snd (Unmarshal (dec_stats J) reply None) \<and>
      fst (SetPreferredLayers J layers reply c) =
        snd (Unmarshal (dec_layers J) reply (preferredLayers c)) \<and>
      fst (SetPriority J prio reply c) = snd (Unmarshal (dec_priority J) reply 0) \<and>
      fst (RequestKeyFrame reply c) = Err reply \<and>
      fst (EnableTraceEvent types reply c) = Err reply \<and>
      consumer_sent (snd (Pause reply c)) =
        consumer_sent c @ [consumer_request ''consumer.pause'' c NoData] \<and>
      consumer_sent (snd (Resume reply c)) =
        consumer_sent c @ [consumer_request ''consumer.resume'' c NoData] \<and>
      consumer_sent (snd (Dump reply c)) =
        consumer_sent c @ [consumer_request ''consumer.dump'' c NoData] \<and>
      consumer_sent (snd (GetStats J reply c)) =
        consumer_sent c @ [consumer_request ''consumer.getStats'' c NoData] \<and>
      consumer_sent (snd (SetPreferredLayers J layers reply c)) =
        consumer_sent c @
          [consumer_request ''consumer.setPreferredLayers'' c (LayersData layers)] \<and>
      consumer_sent (snd (SetPriority J prio reply c)) =
        consumer_sent c @ [consumer_request ''consumer.setPriority'' c (PriorityData prio)] \<and>
      consumer_sent (snd (RequestKeyFrame reply c)) =
        consumer_sent c @ [consumer_request ''consumer.requestKeyFrame'' c NoData] \<and>
      consumer_sent (snd (EnableTraceEvent types reply c)) =
        consumer_sent c @
          [consumer_request ''consumer.enableTraceEvent'' c (TypesData types)]) \<and>
   (NewWorker options spawn = Inr w0 \<and> Worker_Closed (worker_run calls w0) \<longrightarrow>
      isInvalidStateError (snd (fst (Worker_Dump reply (worker_run calls w0)))) \<and>
      isInvalidStateError (snd (fst (GetResourceUsage dec reply (worker_run calls w0)))) \<and>
      isInvalidStateError (fst (UpdateSettings settings reply (worker_run calls w0))) \<and>
      fst (CreateRouter uuid gen reply opts (worker_run calls w0)) =
        Inl (InvalidStateError ''channel closed'') \<and>
      worker_sent (snd (Worker_Dump reply (worker_run calls w0))) =
        worker_sent (worker_run calls w0) \<and>
      worker_sent (snd (GetResourceUsage dec reply (worker_run calls w0))) =
        worker_sent (worker_run calls w0) \<and>
      worker_sent (snd (UpdateSettings settings reply (worker_run calls w0))) =
        worker_sent (worker_run calls w0) \<and>
      worker_sent (snd (CreateRouter uuid gen reply opts (worker_run calls w0))) =
        worker_sent (worker_run calls w0))"
proof (intro conjI impI)
  assume a: "NewWorker options spawn = Inr w0 \<and> Worker_Closed (worker_run calls w0)"
  then have cl: "ch_closed (w_channel (worker_run calls w0))"
    using reachable_closed_worker by blast
  show "isInvalidStateError (snd (fst (Worker_Dump reply (worker_run calls w0))))"
    by (rule worker_ops_channel_closed(1) [OF cl])
  show "isInvalidStateError (snd (fst (GetResourceUsage dec reply (worker_run calls w0))))"
    by (rule worker_ops_channel_closed(2) [OF cl])
  show "isInvalidStateError (fst (UpdateSettings settings reply (worker_run calls w0)))"
    by (rule worker_ops_channel_closed(3) [OF cl])
  show "fst (CreateRouter uuid gen reply opts (worker_run calls w0)) =
          Inl (InvalidStateError ''channel closed'')"
    by (rule worker_ops_channel_closed(4) [OF cl])
  show "worker_sent (snd (Worker_Dump reply (worker_run calls w0))) =
          worker_sent (worker_run calls w0)"
    by (rule worker_ops_channel_closed_sent(1) [OF cl])
  show "worker_sent (snd (GetResourceUsage dec reply (worker_run calls w0))) =
          worker_sent (worker_run calls w0)"
    by (rule worker_ops_channel_closed_sent(2) [OF cl])
  show "worker_sent (snd (UpdateSettings settings reply (worker_run calls w0))) =
          worker_sent (worker_run calls w0)"
    by (rule worker_ops_channel_closed_sent(3) [OF cl])
  show "worker_sent (snd (CreateRouter uuid gen reply opts (worker_run calls w0))) =
          worker_sent (worker_run calls w0)"
    by (rule worker_ops_channel_closed_sent(4) [OF cl])
qed (simp_all add: consumer_ops_channel_closed consumer_ops_channel_open
    consumer_ops_channel_closed_sent consumer_ops_channel_open_sent)

theorem closed_operations_follow_the_channel_witness:
  "Closed closed_consumer_closed_channel \<and>
   ch_closed (c_channel closed_consumer_closed_channel) \<and>
   isInvalidStateError (fst (Pause accepted closed_consumer_closed_channel)) \<and>
   isInvalidStateError (fst (SetPriority example_decoders 5 accepted closed_consumer_closed_channel)) \<and>
   Closed closed_consumer \<and> \<not> ch_closed (c_channel closed_consumer) \<and>
   fst (Resume accepted closed_consumer) = None \<and>
   consumer_sent (snd (Resume accepted closed_consumer)) =
     consumer_sent closed_consumer @
       [\<lparr>rq_method = ''consumer.resume'', rq_internal = Some example_internal,
         rq_body = NoData\<rparr>] \<and>
   consumer_sent (snd (Pause accepted closed_consumer_closed_channel)) =
     consumer_sent closed_consumer_closed_channel \<and>
   fst (RequestKeyFrame \<lparr>Data = [], Err = Some (TimeoutError ''request timeout'')\<rparr>
          closed_consumer) = Some (TimeoutError ''request timeout'') \<and>
   NewWorker [] (Inr 4242) = Inr example_worker \<and>
   Worker_Closed (worker_run [WDump accepted, WClose] example_worker) \<and>
   isInvalidStateError
     (snd (fst (Worker_Dump accepted (worker_run [WDump accepted, WClose] example_worker)))) \<and>
   fst (CreateRouter ''r9'' (\<lambda>codecs. Inr zero_RtpCapabilities) accepted
          \<lparr>MediaCodecs = [], ro_AppData = JNull\<rparr>
          (worker_run [WDump accepted, WClose] example_worker)) =
     Inl (InvalidStateError ''channel closed'')"
proof -
  have c1: "Closed closed_consumer_closed_channel"
    "ch_closed (c_channel closed_consumer_closed_channel)"
    using closed_consumer_Closed
    by (simp_all add: closed_consumer_closed_channel_def Closed_iff Channel_Close_def)
  have wc: "Worker_Closed (worker_run [WDump accepted, WClose] example_worker)"
    by (simp add: worker_run_def Worker_Closed_def Worker_Close_fields)
  have int: "c_internal closed_consumer = example_internal"
    by (simp add: closed_consumer_def Close_def CompareAndSwap01_def closed_newConsumer Let_def
        Emit_def observer_SafeEmit_def newConsumer_def handleWorkerNotifications_register_def
        example_params_def)
  show ?thesis
    using c1 closed_consumer_Closed closed_consumer_channel_open NewWorker_example wc int
      closed_operations_follow_the_channel
        [where c = closed_consumer_closed_channel and reply = accepted and J = example_decoders
           and prio = 5 and options = "[]" and spawn = "Inr 4242" and ?w0.0 = example_worker
           and calls = "[WDump accepted, WClose]" and uuid = "''r9''"
           and gen = "\<lambda>codecs. Inr zero_RtpCapabilities"
           and opts = "\<lparr>MediaCodecs = [], ro_AppData = JNull\<rparr>"]
      closed_operations_follow_the_channel
        [where c = closed_consumer and reply = accepted]
      closed_operations_follow_the_channel
        [where c = closed_consumer
           and reply = "\<lparr>Data = [], Err = Some (TimeoutError ''request timeout'')\<rparr>"]
    by (simp add: accepted_def consumer_request_def)
qed

section \<open>Consuming an unknown producer\<close>

text \<open>
  C7. When \<^verbatim>\<open>getProducerById\<close> finds no producer for \<^verbatim>\<open>options.ProducerId\<close>,
  \<^verbatim>\<open>PipeTransport.Consume\<close> returns an error and no consumer and leaves the transport
  as it was: no request is written to the channel and the consumers of the transport
  are unchanged.
\<close>

theorem Consume_unknown_producer:
  assumes "getProducerById t (co_ProducerId options) = None"
  shows "Consume J uuid getPipeConsumerRtpParameters options reply t =
           (Inl (producer_not_found (co_ProducerId options)), t) \<and>
         (\<exists>e. fst (Consume J uuid getPipeConsumerRtpParameters options reply t) = Inl e) \<and>
         ch_sent (pt_channel (snd (Consume J uuid getPipeConsumerRtpParameters options reply t))) =
           ch_sent (pt_channel t) \<and>
         consumers (ITransport (snd (Consume J uuid getPipeConsumerRtpParameters options reply t))) =
           consumers (ITransport t)"
  using assms by (simp add: Consume_def Let_def)

theorem Consume_unknown_producer_witness:
  "getProducerById example_transport (co_ProducerId (example_options ''missing'')) = None \<and>
   Consume example_pipe_decoders ''c2'' (\<lambda>p r. p) (example_options ''missing'') accepted
       example_transport =
     (Inl (GoError (''Producer with id '' @ [CHR 0x22] @ ''missing'' @ [CHR 0x22] @ '' not found'')),
      example_transport)"
proof -
  have none: "getProducerById example_transport (co_ProducerId (example_options ''missing'')) = None"
    by (simp add: example_transport_def newPipeTransport_def example_options_def)
  show ?thesis
    using none Consume_unknown_producer [OF none, of example_pipe_decoders "''c2''" "\<lambda>p r. p" accepted]
    by (simp add: producer_not_found_def example_options_def)
qed

section \<open>The exit of the worker process\<close>

text \<open>What the method \<^verbatim>\<open>Worker.wait\<close> does when it runs: it closes the Worker, which
  calls \<^verbatim>\<open>workerClosed\<close> on every router, and emits \<^verbatim>\<open>@failure\<close> (with
  \<open>TypeError\<close> \<^verbatim>\<open>wrong settings\<close> exactly for exit code 42) when the Worker had not
  seen \<^verbatim>\<open>running\<close>, and \<^verbatim>\<open>died\<close> when it had.\<close>

lemma wait_emitted:
  "w_emitted (wait err w) =
     w_emitted w @
       (if \<not> spawnDone w then
          (if fst (exit_code_signal err) = 42
           then [(''@failure'', [ErrorArg (TypeError ''wrong settings'')])]
           else [(''@failure'', [ErrorArg (GoError
                   (exit_message (pid w) (fst (exit_code_signal err)) (snd (exit_code_signal err))))])])
        else [(''died'', [ErrorArg (GoError
                (exit_message (pid w) (fst (exit_code_signal err)) (snd (exit_code_signal err))))])])"
  by (simp add: wait_def Let_def split_beta Worker_Close_fields)

lemma wait_closes:
  "Worker_Closed (wait err w)"
  "\<not> w_closed w \<Longrightarrow>
     w_calls (wait err w) = w_calls w @ map (\<lambda>(k, r). RouterWorkerClosed k) (routers w)"
  by (simp_all add: wait_def Let_def split_beta Worker_Closed_def Worker_Close_def)

lemma exit_message_example:
  "exit_message 4242 (-1) ''killed'' = ''[pid:4242, code:-1, signal:killed]''"
  by (simp add: exit_message_def Itoa_def Itoa_nat.simps)

lemma worker_with_router_fields:
  "w_emitted worker_with_router = []"
  "\<not> spawnDone worker_with_router"
  "\<not> w_closed worker_with_router"
  "w_calls worker_with_router = []"
  "map fst (routers worker_with_router) = [''r1'']"
  "map (\<lambda>(k, r). RouterWorkerClosed k) (routers worker_with_router) = [RouterWorkerClosed ''r1'']"
  by (simp_all add: worker_with_router_def CreateRouter_def Request_def Let_def accepted_def
      example_worker_def Channel_On_def newChannel_def sync_Store_def empty_internal_def)

text \<open>
  C2. The claim is that at every exit of the worker process the Worker emits
  \<^verbatim>\<open>@failure\<close> or \<^verbatim>\<open>died\<close> and is closed, with \<^verbatim>\<open>workerClosed\<close> on all its routers.
  The method \<^verbatim>\<open>wait\<close> does that, but \<^verbatim>\<open>NewWorker\<close> never starts it: its goroutine
  runs \<^verbatim>\<open>worker.child.Wait()\<close>. For the Worker of pid 4242 with one router \<^verbatim>\<open>r1\<close>,
  whose child exits with code 42: the Worker stays as it was, emits nothing, calls no
  router and is not closed, before \<^verbatim>\<open>running\<close> as well as after it; the method
  \<^verbatim>\<open>wait\<close>, had it run, would have emitted \<^verbatim>\<open>@failure\<close> with \<^verbatim>\<open>wrong settings\<close>,
  called \<^verbatim>\<open>workerClosed\<close> on \<^verbatim>\<open>r1\<close> and closed the Worker.
\<close>

theorem child_exit_is_not_handled:
  "NewWorker [] (Inr 4242) = Inr example_worker \<and>
   worker_with_router = worker_run
     [WCreateRouter ''r1'' (\<lambda>codecs. Inr zero_RtpCapabilities) accepted
        \<lparr>MediaCodecs = [], ro_AppData = JNull\<rparr>] example_worker \<and>
   map fst (routers worker_with_router) = [''r1''] \<and>
   NewWorker_on_child_exit exit_42 worker_with_router = worker_with_router \<and>
   w_emitted (NewWorker_on_child_exit exit_42 worker_with_router) = [] \<and>
   w_calls (NewWorker_on_child_exit exit_42 worker_with_router) = [] \<and>
   \<not> Worker_Closed (NewWorker_on_child_exit exit_42 worker_with_router) \<and>
   w_emitted (worker_run [WNotification ''running'', WChildExit exit_42] worker_with_router) =
     [(''@success'', [])] \<and>
   w_emitted (wait exit_42 worker_with_router) =
     [(''@failure'', [ErrorArg (TypeError ''wrong settings'')])] \<and>
   w_calls (wait exit_42 worker_with_router) = [RouterWorkerClosed ''r1''] \<and>
   Worker_Closed (wait exit_42 worker_with_router)"
proof -
  have code: "fst (exit_code_signal exit_42) = 42"
    by (simp add: exit_42_def exit_code_signal_def)
  have calls: "w_calls (wait exit_42 worker_with_router) = [RouterWorkerClosed ''r1'']"
    using wait_closes(2) [of worker_with_router exit_42] worker_with_router_fields
    by simp
  show ?thesis
    using code calls worker_with_router_fields wait_closes(1) [of exit_42 worker_with_router]
    by (simp add: NewWorker_example NewWorker_on_child_exit_def wait_emitted Worker_Closed_def
        worker_run_def NewWorker_on_notification_def worker_with_router_def)
qed

section \<open>The copy of the supported capabilities\<close>

lemma GetSupportedRtpCapabilities_shares:
  "GetSupportedRtpCapabilities m = supportedRtpCapabilities m"
  by (simp add: GetSupportedRtpCapabilities_def copier_Copy_def zero_RtpCapabilities_def)

lemma codec_at_init_any:
  "i < 24 \<Longrightarrow>
     codec_at init_memory (supportedRtpCapabilities init_memory) i = Some (0, supported_codecs)"
  by (simp add: codec_at_def init_memory_def supported_codecs_def)

lemma supported_codecs_20: "supported_codecs ! 20 = video_codec ''video/H264'' (Some 0) 2"
  by (simp add: supported_codecs_def)

lemma supported_codecs_18: "supported_codecs ! 18 = video_codec ''video/VP8'' None 0"
  by (simp add: supported_codecs_def)

lemma mutate_first_mime:
  "mutate (SetCodecMimeType 0 ''audio/changed'') (GetSupportedRtpCapabilities init_memory)
     init_memory = Some (supportedRtpCapabilities init_memory, changed_memory)"
  by (simp add: GetSupportedRtpCapabilities_shares codec_at_init_any changed_memory_def)

lemma mutate_parameter:
  "mutate (SetCodecPacketizationMode 20 7) (supportedRtpCapabilities init_memory) init_memory =
     Some (supportedRtpCapabilities init_memory, changed_parameter_memory)"
  by (simp add: codec_at_init_any supported_codecs_20 video_codec_def changed_parameter_memory_def)
    (simp add: init_memory_def)

lemma mutate_feedback:
  "mutate (SetCodecFeedbackType 18 0 ''changed'') (supportedRtpCapabilities init_memory)
     init_memory = Some (supportedRtpCapabilities init_memory, changed_feedback_memory)"
  by (simp add: codec_at_init_any supported_codecs_18 video_codec_def changed_feedback_memory_def)
    (simp add: init_memory_def video_feedback_def)

lemma read_codecs_table:
  "codec_arrays m 0 = Some supported_codecs \<Longrightarrow>
   supportedRtpCapabilities m = supportedRtpCapabilities init_memory \<Longrightarrow>
   read_codecs m (supportedRtpCapabilities m) = Some (map (view_codec m) supported_codecs)"
  by (simp add: read_codecs_def read_slice_def init_memory_def supported_codecs_def)

lemma first_mime_init:
  "first_mime init_memory (supportedRtpCapabilities init_memory) = Some ''audio/opus''"
  by (simp add: first_mime_def read_codecs_def read_slice_def init_memory_def
      supported_codecs_def view_codec_def audio_codec_def)

lemma first_mime_changed:
  "first_mime changed_memory (supportedRtpCapabilities changed_memory) = Some ''audio/changed''"
  by (simp add: first_mime_def read_codecs_def read_slice_def changed_memory_def init_memory_def
      supported_codecs_def view_codec_def audio_codec_def)

lemma h264_mode_init: "h264_mode init_memory (supportedRtpCapabilities init_memory) = Some 1"
proof -
  have "read_codecs init_memory (supportedRtpCapabilities init_memory) =
          Some (map (view_codec init_memory) supported_codecs)"
    by (rule read_codecs_table) (simp_all add: init_memory_def)
  moreover have "length supported_codecs = 24" by (simp add: supported_codecs_def)
  ultimately show ?thesis
    by (simp add: h264_mode_def supported_codecs_20 view_codec_def video_codec_def)
      (simp add: init_memory_def h264_parameter_def)
qed

lemma h264_mode_changed:
  "h264_mode changed_parameter_memory (supportedRtpCapabilities changed_parameter_memory) = Some 7"
proof -
  have "read_codecs changed_parameter_memory (supportedRtpCapabilities changed_parameter_memory) =
          Some (map (view_codec changed_parameter_memory) supported_codecs)"
    by (rule read_codecs_table) (simp_all add: changed_parameter_memory_def init_memory_def)
  moreover have "length supported_codecs = 24" by (simp add: supported_codecs_def)
  ultimately show ?thesis
    by (simp add: h264_mode_def supported_codecs_20 view_codec_def video_codec_def)
      (simp add: changed_parameter_memory_def h264_parameter_def)
qed

lemma vp8_feedback_init:
  "vp8_first_feedback init_memory (supportedRtpCapabilities init_memory) = Some ''nack''"
proof -
  have "read_codecs init_memory (supportedRtpCapabilities init_memory) =
          Some (map (view_codec init_memory) supported_codecs)"
    by (rule read_codecs_table) (simp_all add: init_memory_def)
  moreover have "length supported_codecs = 24" by (simp add: supported_codecs_def)
  ultimately show ?thesis
    by (simp add: vp8_first_feedback_def supported_codecs_18 view_codec_def video_codec_def
        read_slice_def)
      (simp add: init_memory_def video_feedback_def)
qed

lemma vp8_feedback_changed:
  "vp8_first_feedback changed_feedback_memory (supportedRtpCapabilities changed_feedback_memory) =
     Some ''changed''"
proof -
  have "read_codecs changed_feedback_memory (supportedRtpCapabilities changed_feedback_memory) =
          Some (map (view_codec changed_feedback_memory) supported_codecs)"
    by (rule read_codecs_table) (simp_all add: changed_feedback_memory_def init_memory_def)
  moreover have "length supported_codecs = 24" by (simp add: supported_codecs_def)
  ultimately show ?thesis
    by (simp add: vp8_first_feedback_def supported_codecs_18 view_codec_def video_codec_def
        read_slice_def)
      (simp add: changed_feedback_memory_def video_feedback_def)
qed

text \<open>
  C6. The claim is that \<^verbatim>\<open>GetSupportedRtpCapabilities()\<close> returns a deep copy, so that
  no write through the returned value reaches the built-in table. The value it returns
  has the slice headers of the table itself. Starting from the memory after
  initialisation: \<^verbatim>\<open>caps.Codecs[0].MimeType = "audio/changed"\<close> on a returned value
  changes the first codec of the table from \<^verbatim>\<open>audio/opus\<close>, and a later call returns
  the changed name; \<^verbatim>\<open>caps.Codecs[20].Parameters.PacketizationMode = 7\<close> changes the
  H264 parameters of the table from 1 to 7; \<^verbatim>\<open>caps.Codecs[18].RtcpFeedback[0].Type =
  "changed"\<close> changes the first feedback of the table's VP8 from \<^verbatim>\<open>nack\<close>.
\<close>

theorem returned_capabilities_alias_the_table:
  "first_mime init_memory (supportedRtpCapabilities init_memory) = Some ''audio/opus'' \<and>
   mutate (SetCodecMimeType 0 ''audio/changed'') (GetSupportedRtpCapabilities init_memory)
     init_memory = Some (GetSupportedRtpCapabilities init_memory, changed_memory) \<and>
   first_mime changed_memory (supportedRtpCapabilities changed_memory) = Some ''audio/changed'' \<and>
   first_mime changed_memory (GetSupportedRtpCapabilities changed_memory) =
     Some ''audio/changed'' \<and>
   h264_mode init_memory (supportedRtpCapabilities init_memory) = Some 1 \<and>
   mutate (SetCodecPacketizationMode 20 7) (GetSupportedRtpCapabilities init_memory)
     init_memory = Some (GetSupportedRtpCapabilities init_memory, changed_parameter_memory) \<and>
   h264_mode changed_parameter_memory (supportedRtpCapabilities changed_parameter_memory) =
     Some 7 \<and>
   vp8_first_feedback init_memory (supportedRtpCapabilities init_memory) = Some ''nack'' \<and>
   mutate (SetCodecFeedbackType 18 0 ''changed'') (GetSupportedRtpCapabilities init_memory)
     init_memory = Some (GetSupportedRtpCapabilities init_memory, changed_feedback_memory) \<and>
   vp8_first_feedback changed_feedback_memory
     (supportedRtpCapabilities changed_feedback_memory) = Some ''changed''"
  unfolding GetSupportedRtpCapabilities_shares
  using first_mime_init first_mime_changed h264_mode_init h264_mode_changed
    vp8_feedback_init vp8_feedback_changed mutate_parameter mutate_feedback
    mutate_first_mime [unfolded GetSupportedRtpCapabilities_shares]
  by simp

end
